theory Spec2Isabelle
  imports Main "HOL-Library.Word"
begin

section \<open>JavaScript containers used by the session managers\<close>

text \<open>
  A JavaScript \<^verbatim>\<open>Map\<close> (and a plain object used as a dictionary) keeps its entries in
  insertion order and holds every key once.  It is modelled as an association list:
  \<^verbatim>\<open>set\<close> overwrites the value of a key already present in place and appends a new key,
  \<^verbatim>\<open>delete\<close> drops the entry, \<^verbatim>\<open>values()\<close> lists the values in insertion order.
\<close>

type_synonym ('k, 'v) js_map = "('k \<times> 'v) list"

definition map_get :: "'k \<Rightarrow> ('k, 'v) js_map \<Rightarrow> 'v option" where
  "map_get k m = map_of m k"

definition map_has :: "'k \<Rightarrow> ('k, 'v) js_map \<Rightarrow> bool" where
  "map_has k m = (map_of m k \<noteq> None)"

fun map_set :: "'k \<Rightarrow> 'v \<Rightarrow> ('k, 'v) js_map \<Rightarrow> ('k, 'v) js_map" where
  "map_set k v [] = [(k, v)]"
| "map_set k v ((k', v') # m) =
     (if k' = k then (k, v) # m else (k', v') # map_set k v m)"

definition map_delete :: "'k \<Rightarrow> ('k, 'v) js_map \<Rightarrow> ('k, 'v) js_map" where
  "map_delete k m = filter (\<lambda>e. fst e \<noteq> k) m"

definition map_keys :: "('k, 'v) js_map \<Rightarrow> 'k list" where
  "map_keys m = map fst m"

definition map_values :: "('k, 'v) js_map \<Rightarrow> 'v list" where
  "map_values m = map snd m"

text \<open>
  \<^verbatim>\<open>[...new Set(xs)]\<close>: the elements of \<open>xs\<close> in the order of their first occurrence,
  each once.
\<close>

definition set_spread :: "'a list \<Rightarrow> 'a list" where
  "set_spread xs = rev (remdups (rev xs))"

section \<open>Namespace negotiation: \<^verbatim>\<open>processSessionProposal\<close> of \<^verbatim>\<open>walletconnect-real.ts\<close>\<close>

text \<open>
  One entry of \<^verbatim>\<open>requiredNamespaces\<close> / \<^verbatim>\<open>optionalNamespaces\<close>.  The code reads every
  field through \<^verbatim>\<open>||\<close> with a fallback, so each field may be absent; an array, even an
  empty one, is truthy.
\<close>

record proposal_namespace =
  req_chains :: "string list option"
  req_methods :: "string list option"
  req_events :: "string list option"

text \<open>
  One entry of the approved \<^verbatim>\<open>SessionTypes.Namespaces\<close>; its \<^verbatim>\<open>chains\<close> key is
  optional.
\<close>

record session_namespace =
  accounts :: "string list"
  methods :: "string list"
  events :: "string list"
  chains :: "string list option"

type_synonym proposal_namespaces = "(string, proposal_namespace) js_map"
type_synonym namespaces = "(string, session_namespace) js_map"

text \<open>The template literal \<^verbatim>\<open>`${chain}:${this.wallet.address}`\<close>.\<close>

definition account_of :: "string \<Rightarrow> string \<Rightarrow> string" where
  "account_of address chain = chain @ '':'' @ address"

definition or_else :: "'a option \<Rightarrow> 'a \<Rightarrow> 'a" where
  "or_else v d = (case v of None \<Rightarrow> d | Some x \<Rightarrow> x)"

text \<open>The method list of the "OpenSea compatibility" fallback (17 methods).\<close>

definition opensea_default_methods :: "string list" where
  "opensea_default_methods =
     [''eth_sendTransaction'', ''eth_signTransaction'', ''eth_sign'', ''personal_sign'',
      ''eth_signTypedData'', ''eth_signTypedData_v4'', ''eth_accounts'',
      ''eth_requestAccounts'', ''eth_chainId'', ''wallet_switchEthereumChain'',
      ''wallet_addEthereumChain'', ''eth_getBalance'', ''eth_getTransactionCount'',
      ''eth_gasPrice'', ''eth_estimateGas'', ''net_version'', ''wallet_getCapabilities'']"

text \<open>The method list of the last-resort fallback (5 methods).\<close>

definition last_resort_methods :: "string list" where
  "last_resort_methods =
     [''eth_sendTransaction'', ''personal_sign'', ''eth_sign'', ''eth_signTypedData'',
      ''eth_signTypedData_v4'']"

definition default_events :: "string list" where
  "default_events = [''chainChanged'', ''accountsChanged'']"

text \<open>
  Step 1, \<^verbatim>\<open>if (requiredNamespaces.eip155) {...}\<close>: only the key \<^verbatim>\<open>eip155\<close> is ever read.
\<close>

definition required_step ::
    "string \<Rightarrow> string \<Rightarrow> proposal_namespaces \<Rightarrow> namespaces \<Rightarrow> namespaces" where
  "required_step defaultChain address requiredNamespaces ns =
     (case map_get ''eip155'' requiredNamespaces of
        None \<Rightarrow> ns
      | Some r \<Rightarrow>
          (let cs = or_else (req_chains r) [defaultChain];
               ms = or_else (req_methods r) [];
               es = or_else (req_events r) []
           in map_set ''eip155''
                \<lparr>accounts = map (account_of address) cs, methods = ms, events = es,
                 chains = Some cs\<rparr> ns))"

text \<open>Step 2, \<^verbatim>\<open>if (optionalNamespaces?.eip155) {...}\<close>.\<close>

definition optional_step ::
    "string \<Rightarrow> string \<Rightarrow> proposal_namespaces option \<Rightarrow> namespaces \<Rightarrow> namespaces" where
  "optional_step defaultChain address optionalNamespaces ns =
     (case optionalNamespaces of
        None \<Rightarrow> ns
      | Some opt \<Rightarrow>
         (case map_get ''eip155'' opt of
            None \<Rightarrow> ns
          | Some p \<Rightarrow>
             (let optionalChains = or_else (req_chains p) [];
                  optionalMethods = or_else (req_methods p) [];
                  optionalEvents = or_else (req_events p) []
              in case map_get ''eip155'' ns of
                   None \<Rightarrow>
                     (let accs = map (account_of address) optionalChains
                      in map_set ''eip155''
                           \<lparr>accounts =
                              (if length accs > 0 then accs
                               else [account_of address defaultChain]),
                            methods = optionalMethods,
                            events = optionalEvents,
                            chains =
                              Some (if length optionalChains > 0 then optionalChains
                                    else [defaultChain])\<rparr> ns)
                 | Some e \<Rightarrow>
                     (let additionalAccounts =
                            map (account_of address)
                              (filter (\<lambda>chain. account_of address chain \<notin> set (accounts e))
                                 optionalChains)
                      in if length additionalAccounts > 0
                         then map_set ''eip155''
                                \<lparr>accounts = accounts e @ additionalAccounts,
                                 methods = set_spread (methods e @ optionalMethods),
                                 events = set_spread (events e @ optionalEvents),
                                 chains =
                                   Some (set_spread
                                          (or_else (chains e) [] @ optionalChains))\<rparr> ns
                         else ns))))"

text \<open>
  Step 3, the "OpenSea sometimes sends empty namespaces" fallback:
  \<^verbatim>\<open>Object.keys(requiredNamespaces).length === 0 && (!optionalNamespaces || Object.keys(optionalNamespaces).length === 0)\<close>.
\<close>

definition empty_step ::
    "string \<Rightarrow> string \<Rightarrow> proposal_namespaces \<Rightarrow> proposal_namespaces option \<Rightarrow>
     namespaces \<Rightarrow> namespaces" where
  "empty_step defaultChain address requiredNamespaces optionalNamespaces ns =
     (if length (map_keys requiredNamespaces) = 0 \<and>
         (case optionalNamespaces of None \<Rightarrow> True | Some opt \<Rightarrow> length (map_keys opt) = 0)
      then map_set ''eip155''
             \<lparr>accounts = [account_of address defaultChain],
              methods = opensea_default_methods,
              events = default_events,
              chains = Some [defaultChain]\<rparr> ns
      else ns)"

text \<open>Step 4, \<^verbatim>\<open>if (Object.keys(namespaces).length === 0)\<close>: "If still no namespaces".\<close>

definition last_resort_step :: "string \<Rightarrow> string \<Rightarrow> namespaces \<Rightarrow> namespaces" where
  "last_resort_step defaultChain address ns =
     (if length (map_keys ns) = 0
      then map_set ''eip155''
             \<lparr>accounts = [account_of address defaultChain],
              methods = last_resort_methods,
              events = default_events,
              chains = Some [defaultChain]\<rparr> ns
      else ns)"

text \<open>
  The namespaces handed to \<^verbatim>\<open>signClient.approve\<close>.  The two versions of
  \<^verbatim>\<open>processSessionProposal\<close> in \<^verbatim>\<open>walletconnect-real.ts\<close> run the same four steps and
  differ only in the expression of the default chain, which is a parameter here.
\<close>

definition buildNamespaces ::
    "string \<Rightarrow> string \<Rightarrow> proposal_namespaces \<Rightarrow> proposal_namespaces option \<Rightarrow> namespaces" where
  "buildNamespaces defaultChain address requiredNamespaces optionalNamespaces =
     last_resort_step defaultChain address
       (empty_step defaultChain address requiredNamespaces optionalNamespaces
          (optional_step defaultChain address optionalNamespaces
             (required_step defaultChain address requiredNamespaces [])))"

text \<open>
  First version: \<^verbatim>\<open>this.isTestnet ? 'eip155:11155111' : 'eip155:1'\<close>.
\<close>

definition defaultChain_testnet :: "bool \<Rightarrow> string" where
  "defaultChain_testnet isTestnet = (if isTestnet then ''eip155:11155111'' else ''eip155:1'')"

text \<open>
  Second version: \<^verbatim>\<open>`eip155:${this.currentChain?.id || 1}`\<close>.  \<^verbatim>\<open>ChainConfig.id\<close> is a
  \<^verbatim>\<open>number\<close>; the chain ids of \<^verbatim>\<open>chains.ts\<close> are positive integers, printed in decimal.
  An absent chain and the falsy id 0 both give 1.
\<close>

function string_of_nat :: "nat \<Rightarrow> string" where
  "string_of_nat n =
     (if n < 10 then [''0123456789'' ! n]
      else string_of_nat (n div 10) @ [''0123456789'' ! (n mod 10)])"
  by pat_completeness auto
termination
  by (relation "measure id") auto

definition defaultChain_current :: "nat option \<Rightarrow> string" where
  "defaultChain_current currentChain_id =
     ''eip155:'' @ string_of_nat
        (case currentChain_id of None \<Rightarrow> 1 | Some i \<Rightarrow> if i = 0 then 1 else i)"

declare string_of_nat.simps [simp del]

text \<open>The entry points of the two versions.\<close>

definition namespaces_testnet ::
    "bool \<Rightarrow> string \<Rightarrow> proposal_namespaces \<Rightarrow> proposal_namespaces option \<Rightarrow> namespaces" where
  "namespaces_testnet isTestnet address requiredNamespaces optionalNamespaces =
     buildNamespaces (defaultChain_testnet isTestnet) address requiredNamespaces
       optionalNamespaces"

definition namespaces_current ::
    "nat option \<Rightarrow> string \<Rightarrow> proposal_namespaces \<Rightarrow> proposal_namespaces option \<Rightarrow> namespaces" where
  "namespaces_current currentChain_id address requiredNamespaces optionalNamespaces =
     buildNamespaces (defaultChain_current currentChain_id) address requiredNamespaces
       optionalNamespaces"

section \<open>JavaScript values and the operations the request handlers apply to them\<close>

text \<open>
  \<^verbatim>\<open>request.params\<close> is typed \<^verbatim>\<open>any\<close>: the peer decides its shape.  JSON values are
  modelled as a datatype; the accessors below raise where JavaScript raises.
\<close>

datatype js_value =
    JUndefined
  | JNull
  | JBool bool
  | JNumber int
  | JString string
  | JArray "js_value list"
  | JObject "(string \<times> js_value) list"

datatype js_error =
    Error string
  | TypeError
  | ReferenceError

text \<open>\<^verbatim>\<open>v[i]\<close>: reading an index of \<^verbatim>\<open>undefined\<close> or \<^verbatim>\<open>null\<close> throws a TypeError.\<close>

fun js_index :: "js_value \<Rightarrow> nat \<Rightarrow> js_error + js_value" where
  "js_index JUndefined i = Inl TypeError"
| "js_index JNull i = Inl TypeError"
| "js_index (JArray xs) i = Inr (if i < length xs then xs ! i else JUndefined)"
| "js_index (JString s) i = Inr (if i < length s then JString [s ! i] else JUndefined)"
| "js_index (JObject kvs) i =
     Inr (case map_of kvs (string_of_nat i) of None \<Rightarrow> JUndefined | Some v \<Rightarrow> v)"
| "js_index (JBool b) i = Inr JUndefined"
| "js_index (JNumber n) i = Inr JUndefined"

text \<open>
  \<^verbatim>\<open>v.key\<close> for the keys the handlers read (\<^verbatim>\<open>chainId\<close>, \<^verbatim>\<open>domain\<close>, \<^verbatim>\<open>types\<close>,
  \<^verbatim>\<open>message\<close>), none of which is a built-in property of a primitive or of an array.
\<close>

fun js_prop :: "js_value \<Rightarrow> string \<Rightarrow> js_error + js_value" where
  "js_prop JUndefined k = Inl TypeError"
| "js_prop JNull k = Inl TypeError"
| "js_prop (JObject kvs) k = Inr (case map_of kvs k of None \<Rightarrow> JUndefined | Some v \<Rightarrow> v)"
| "js_prop (JArray xs) k = Inr JUndefined"
| "js_prop (JString s) k = Inr JUndefined"
| "js_prop (JBool b) k = Inr JUndefined"
| "js_prop (JNumber n) k = Inr JUndefined"

text \<open>Truthiness, as \<^verbatim>\<open>&&\<close> and \<^verbatim>\<open>if\<close> test it.\<close>

fun truthy :: "js_value \<Rightarrow> bool" where
  "truthy JUndefined = False"
| "truthy JNull = False"
| "truthy (JBool b) = b"
| "truthy (JNumber n) = (n \<noteq> 0)"
| "truthy (JString s) = (s \<noteq> [])"
| "truthy (JArray xs) = True"
| "truthy (JObject kvs) = True"

text \<open>
  \<^verbatim>\<open>String.prototype.toLowerCase\<close> on the ASCII letters (addresses are hexadecimal ASCII).
\<close>

definition lower_char :: "char \<Rightarrow> char" where
  "lower_char c =
     (case map_of (zip ''ABCDEFGHIJKLMNOPQRSTUVWXYZ'' ''abcdefghijklmnopqrstuvwxyz'') c of
        None \<Rightarrow> c | Some l \<Rightarrow> l)"

definition lower_string :: "string \<Rightarrow> string" where
  "lower_string s = map lower_char s"

text \<open>
  \<^verbatim>\<open>v.toLowerCase()\<close>: only a string has the method; calling it on anything else throws.
\<close>

fun toLowerCase :: "js_value \<Rightarrow> js_error + string" where
  "toLowerCase (JString s) = Inr (lower_string s)"
| "toLowerCase v = Inl TypeError"

definition startsWith :: "string \<Rightarrow> string \<Rightarrow> bool" where
  "startsWith s pat = (take (length pat) s = pat)"

text \<open>\<^verbatim>\<open>s.includes(pat)\<close> on strings.\<close>

fun str_includes :: "string \<Rightarrow> string \<Rightarrow> bool" where
  "str_includes [] pat = (pat = [])"
| "str_includes (c # cs) pat = (startsWith (c # cs) pat \<or> str_includes cs pat)"

text \<open>\<^verbatim>\<open>s.split(sep)\<close> for a one-character separator.\<close>

fun split_char :: "char \<Rightarrow> string \<Rightarrow> string list" where
  "split_char sep [] = [[]]"
| "split_char sep (c # cs) =
     (if c = sep then [] # split_char sep cs
      else (case split_char sep cs of
              [] \<Rightarrow> [[c]]
            | p # ps \<Rightarrow> (c # p) # ps))"

text \<open>\<^verbatim>\<open>s.replace(pat, '')\<close> with a string pattern: the first occurrence is removed.\<close>

fun remove_first :: "string \<Rightarrow> string \<Rightarrow> string" where
  "remove_first pat [] = []"
| "remove_first pat (c # cs) =
     (if startsWith (c # cs) pat then drop (length pat) (c # cs)
      else c # remove_first pat cs)"

section \<open>Sessions, proposals, requests and the outside world\<close>

record peer_metadata =
  name :: string
  description :: string
  url :: string
  icons :: "string list"

text \<open>The interface \<^verbatim>\<open>WalletConnectSession\<close>, declared alike in every manager.\<close>

record WalletConnectSession =
  topic :: string
  peerMetadata :: peer_metadata

text \<open>
  What the managers read of a session of the transport (\<^verbatim>\<open>SessionTypes.Struct\<close>):
  \<^verbatim>\<open>session.topic\<close> and \<^verbatim>\<open>session.peer.metadata\<close>.
\<close>

record transport_session =
  session_topic :: string
  session_peer_metadata :: peer_metadata

type_synonym sessions_map = "(string, WalletConnectSession) js_map"

text \<open>The \<^verbatim>\<open>session_proposal\<close> event: \<^verbatim>\<open>id\<close> and the fields read of \<^verbatim>\<open>params\<close>.\<close>

record session_proposal =
  proposal_id :: int
  proposer_metadata :: peer_metadata
  requiredNamespaces :: proposal_namespaces
  optionalNamespaces :: "proposal_namespaces option"

text \<open>The \<^verbatim>\<open>session_request\<close> event: \<^verbatim>\<open>topic\<close>, \<^verbatim>\<open>id\<close>, \<^verbatim>\<open>params.request\<close>.\<close>

record session_request =
  request_topic :: string
  request_id :: int
  request_method :: string
  request_params :: js_value

text \<open>A JSON-RPC response: a result, or an error with its code and message.\<close>

datatype response =
    Result int js_value
  | ErrorResponse int int string

text \<open>
  The calls a manager makes on the transport, on the user interface and on the
  \<^verbatim>\<open>ethers\<close> wallet, in the order it makes them.
\<close>

datatype call =
    Approve int namespaces
  | Reject int
  | Respond string response
  | Disconnect string
  | Pair string
  | ProposalCallback int
  | SignMessage js_value
  | SignTransaction js_value
  | SignTypedData js_value js_value js_value
  | SendTransaction js_value

text \<open>
  The answers of the outside world.  None of this is code of the repository: the
  WalletConnect client (\<^verbatim>\<open>approve\<close>, \<^verbatim>\<open>reject\<close>, \<^verbatim>\<open>respond\<close>, \<^verbatim>\<open>disconnect\<close>,
  \<^verbatim>\<open>pair\<close>, \<^verbatim>\<open>session.getAll\<close>, \<^verbatim>\<open>init\<close>), the \<^verbatim>\<open>ethers\<close> wallet and a few
  built-ins.  A call either returns a value or throws.
\<close>

record environment =
  approve :: "int \<Rightarrow> namespaces \<Rightarrow> js_error + transport_session"
  reject_throws :: "int \<Rightarrow> js_error option"
  respond_throws :: "string \<Rightarrow> response \<Rightarrow> js_error option"
  disconnect_throws :: "string \<Rightarrow> js_error option"
  pair_throws :: "string \<Rightarrow> js_error option"
  init_throws :: "js_error option"
  session_getAll :: "js_error + transport_session list"
  new_Wallet :: "string \<Rightarrow> js_error + string"
  signMessage :: "js_value \<Rightarrow> js_error + string"
  signTransaction :: "js_value \<Rightarrow> js_error + string"
  signTypedData :: "js_value \<Rightarrow> js_value \<Rightarrow> js_value \<Rightarrow> js_error + string"
  sendTransaction :: "js_value \<Rightarrow> js_error + string"
  hex_to_utf8 :: "string \<Rightarrow> js_error + string"
  JSON_parse :: "string \<Rightarrow> js_error + js_value"
  property_key :: "js_value \<Rightarrow> string"

text \<open>
  The fields of a manager.  \<^verbatim>\<open>signClient\<close> tells whether the transport client
  (\<^verbatim>\<open>signClient\<close>, \<^verbatim>\<open>web3wallet\<close>) is set; \<^verbatim>\<open>wallet\<close> holds the address of the
  \<^verbatim>\<open>ethers.Wallet\<close>, or nothing while it is \<^verbatim>\<open>null\<close>.  \<^verbatim>\<open>calls\<close> is the trace of the
  calls made so far.
\<close>

record manager =
  signClient :: bool
  wallet :: "string option"
  sessions :: sessions_map
  isTestnet :: bool
  pendingProposals :: "(int, session_proposal) js_map"
  onProposalCallback :: bool
  calls :: "call list"

definition do_call :: "call \<Rightarrow> manager \<Rightarrow> manager" where
  "do_call c s = s\<lparr>calls := calls s @ [c]\<rparr>"

definition new_manager :: manager where
  "new_manager =
     \<lparr>signClient = False, wallet = None, sessions = [], isTestnet = False,
      pendingProposals = [], onProposalCallback = False, calls = []\<rparr>"

text \<open>
  \<^verbatim>\<open>this.sessions.set(session.topic, {topic: session.topic, peerMetadata: ...})\<close>
\<close>

definition store_session :: "string \<Rightarrow> peer_metadata \<Rightarrow> sessions_map \<Rightarrow> sessions_map" where
  "store_session t md m = map_set t \<lparr>topic = t, peerMetadata = md\<rparr> m"

definition cache_session :: "transport_session \<Rightarrow> sessions_map \<Rightarrow> sessions_map" where
  "cache_session x m = store_session (session_topic x) (session_peer_metadata x) m"

section \<open>\<^verbatim>\<open>RealWalletConnectManager\<close> (\<^verbatim>\<open>walletconnect-real.ts\<close>)\<close>

text \<open>
  The \<^verbatim>\<open>catch\<close> of \<^verbatim>\<open>processSessionProposal\<close>: a best-effort \<^verbatim>\<open>reject\<close>, whose own failure
  is only logged.  Nothing is thrown again.
\<close>

definition proposal_catch :: "session_proposal \<Rightarrow> manager \<Rightarrow> (js_error + unit) \<times> manager" where
  "proposal_catch event s =
     (if signClient s then (Inr (), do_call (Reject (proposal_id event)) s)
      else (Inr (), s))"

definition processSessionProposal ::
    "environment \<Rightarrow> session_proposal \<Rightarrow> manager \<Rightarrow> (js_error + unit) \<times> manager" where
  "processSessionProposal env event s =
     (if \<not> signClient s then proposal_catch event s
      else case wallet s of
        None \<Rightarrow> proposal_catch event s
      | Some address \<Rightarrow>
          (let ns = namespaces_testnet (isTestnet s) address (requiredNamespaces event)
                      (optionalNamespaces event);
               s1 = do_call (Approve (proposal_id event) ns) s
           in case approve env (proposal_id event) ns of
                Inl e \<Rightarrow> proposal_catch event s1
              | Inr session \<Rightarrow>
                  (Inr (),
                   s1\<lparr>sessions :=
                        store_session (session_topic session) (proposer_metadata event)
                          (sessions s1)\<rparr>)))"

definition approveProposal ::
    "environment \<Rightarrow> int \<Rightarrow> manager \<Rightarrow> (js_error + unit) \<times> manager" where
  "approveProposal env proposalId s =
     (case map_get proposalId (pendingProposals s) of
        None \<Rightarrow> (Inr (), s)
      | Some proposal \<Rightarrow>
          (case processSessionProposal env proposal s of
             (Inl e, s') \<Rightarrow> (Inl e, s')
           | (Inr u, s') \<Rightarrow>
               (Inr (),
                s'\<lparr>pendingProposals := map_delete proposalId (pendingProposals s')\<rparr>)))"

definition rejectProposal ::
    "environment \<Rightarrow> int \<Rightarrow> manager \<Rightarrow> (js_error + unit) \<times> manager" where
  "rejectProposal env proposalId s =
     (if map_get proposalId (pendingProposals s) = None \<or> \<not> signClient s then (Inr (), s)
      else (let s1 = do_call (Reject proposalId) s
            in case reject_throws env proposalId of
                 Some e \<Rightarrow> (Inl e, s1)
               | None \<Rightarrow>
                   (Inr (),
                    s1\<lparr>pendingProposals := map_delete proposalId (pendingProposals s1)\<rparr>)))"

definition handleSessionProposal ::
    "environment \<Rightarrow> session_proposal \<Rightarrow> manager \<Rightarrow> (js_error + unit) \<times> manager" where
  "handleSessionProposal env event s =
     (let s1 = s\<lparr>pendingProposals :=
                   map_set (proposal_id event) event (pendingProposals s)\<rparr>
      in if onProposalCallback s1
         then (Inr (), do_call (ProposalCallback (proposal_id event)) s1)
         else rejectProposal env (proposal_id event) s1)"

text \<open>
  \<^verbatim>\<open>initialize\<close>: sets the client and restores the sessions the transport still holds.
\<close>

definition initialize :: "environment \<Rightarrow> manager \<Rightarrow> (js_error + unit) \<times> manager" where
  "initialize env s =
     (if signClient s then (Inr (), s)
      else case init_throws env of
        Some e \<Rightarrow> (Inl e, s)
      | None \<Rightarrow>
          (let s1 = s\<lparr>signClient := True\<rparr>
           in case session_getAll env of
                Inl e \<Rightarrow> (Inr (), s1)
              | Inr activeSessions \<Rightarrow>
                  (Inr (),
                   if length activeSessions > 0
                   then s1\<lparr>sessions := fold cache_session activeSessions (sessions s1)\<rparr>
                   else s1)))"

text \<open>The listeners of \<^verbatim>\<open>session_delete\<close> and \<^verbatim>\<open>session_expire\<close>.\<close>

definition on_session_delete :: "string \<Rightarrow> manager \<Rightarrow> manager" where
  "on_session_delete t s = s\<lparr>sessions := map_delete t (sessions s)\<rparr>"

definition on_session_expire :: "string \<Rightarrow> manager \<Rightarrow> manager" where
  "on_session_expire t s = s\<lparr>sessions := map_delete t (sessions s)\<rparr>"

definition connectWithUri ::
    "environment \<Rightarrow> string \<Rightarrow> string \<Rightarrow> bool \<Rightarrow> manager \<Rightarrow> (js_error + unit) \<times> manager" where
  "connectWithUri env uri privateKey testnet s =
     (let s1 = s\<lparr>isTestnet := testnet\<rparr>
      in case (if \<not> signClient s1 then initialize env s1 else (Inr (), s1)) of
           (Inl e, s2) \<Rightarrow> (Inl e, s2)
         | (Inr u, s2) \<Rightarrow>
             (case new_Wallet env privateKey of
                Inl e \<Rightarrow> (Inl e, s2)
              | Inr address \<Rightarrow>
                  (let s3 = s2\<lparr>wallet := Some address\<rparr>
                   in if signClient s3
                      then (case pair_throws env uri of
                              Some e \<Rightarrow> (Inl e, do_call (Pair uri) s3)
                            | None \<Rightarrow> (Inr (), do_call (Pair uri) s3))
                      else (Inr (), s3))))"

definition getSessions ::
    "environment \<Rightarrow> manager \<Rightarrow> WalletConnectSession list \<times> manager" where
  "getSessions env s =
     (let s1 =
        (if signClient s
         then (case session_getAll env of
                 Inl e \<Rightarrow> s
               | Inr activeSessions \<Rightarrow>
                   s\<lparr>sessions :=
                       fold (\<lambda>session m.
                               if \<not> map_has (session_topic session) m
                               then cache_session session m else m)
                         activeSessions (sessions s)\<rparr>)
         else s)
      in (map_values (sessions s1), s1))"

definition disconnectSession ::
    "environment \<Rightarrow> string \<Rightarrow> manager \<Rightarrow> (js_error + unit) \<times> manager" where
  "disconnectSession env t s =
     (if signClient s \<and> map_has t (sessions s)
      then (let s1 = do_call (Disconnect t) s
            in case disconnect_throws env t of
                 Some e \<Rightarrow> (Inl e, s1)
               | None \<Rightarrow> (Inr (), s1\<lparr>sessions := map_delete t (sessions s1)\<rparr>))
      else (Inr (), s))"

text \<open>
  \<^verbatim>\<open>for (const topic of this.sessions.keys()) await this.disconnectSession(topic)\<close>: the
  loop body removes at most the key being visited, so the iterator visits the keys present
  at the start, in order; the first failure leaves the loop.
\<close>

fun disconnect_each ::
    "environment \<Rightarrow> string list \<Rightarrow> manager \<Rightarrow> (js_error + unit) \<times> manager" where
  "disconnect_each env [] s = (Inr (), s)"
| "disconnect_each env (t # ts) s =
     (case disconnectSession env t s of
        (Inl e, s') \<Rightarrow> (Inl e, s')
      | (Inr u, s') \<Rightarrow> disconnect_each env ts s')"

definition disconnectAll :: "environment \<Rightarrow> manager \<Rightarrow> (js_error + unit) \<times> manager" where
  "disconnectAll env s = disconnect_each env (map_keys (sessions s)) s"

text \<open>
  The address check of \<^verbatim>\<open>personal_sign\<close> and \<^verbatim>\<open>eth_sign\<close>:
  \<^verbatim>\<open>if (signerAddress && signerAddress.toLowerCase() !== this.wallet.address.toLowerCase()) throw new Error(`Address mismatch: ...`)\<close>.
  The result is the error thrown, if any.
\<close>

definition the_string :: "js_value \<Rightarrow> string" where
  "the_string v = (case v of JString x \<Rightarrow> x | _ \<Rightarrow> [])"

definition address_mismatch :: "string \<Rightarrow> js_value \<Rightarrow> js_error option" where
  "address_mismatch address requested =
     (if truthy requested
      then (case toLowerCase requested of
              Inl e \<Rightarrow> Some e
            | Inr l \<Rightarrow>
                if l \<noteq> lower_string address
                then Some (Error (''Address mismatch: requested '' @ the_string requested @
                                   '', wallet has '' @ address))
                else None)
      else None)"

definition wallet_signMessage ::
    "environment \<Rightarrow> js_value \<Rightarrow> manager \<Rightarrow> (js_error + js_value) \<times> manager" where
  "wallet_signMessage env payload s =
     ((case signMessage env payload of Inl e \<Rightarrow> Inl e | Inr sig \<Rightarrow> Inr (JString sig)),
      do_call (SignMessage payload) s)"

definition wallet_signTransaction ::
    "environment \<Rightarrow> js_value \<Rightarrow> manager \<Rightarrow> (js_error + js_value) \<times> manager" where
  "wallet_signTransaction env tx s =
     ((case signTransaction env tx of Inl e \<Rightarrow> Inl e | Inr signedTx \<Rightarrow> Inr (JString signedTx)),
      do_call (SignTransaction tx) s)"

definition wallet_sendTransaction ::
    "environment \<Rightarrow> js_value \<Rightarrow> manager \<Rightarrow> (js_error + js_value) \<times> manager" where
  "wallet_sendTransaction env tx s =
     ((case sendTransaction env tx of Inl e \<Rightarrow> Inl e | Inr hash \<Rightarrow> Inr (JString hash)),
      do_call (SendTransaction tx) s)"

definition wallet_signTypedData ::
    "environment \<Rightarrow> js_value \<Rightarrow> js_value \<Rightarrow> js_value \<Rightarrow> manager \<Rightarrow>
     (js_error + js_value) \<times> manager" where
  "wallet_signTypedData env d t m s =
     ((case signTypedData env d t m of Inl e \<Rightarrow> Inl e | Inr sig \<Rightarrow> Inr (JString sig)),
      do_call (SignTypedData d t m) s)"

definition capabilities :: "string \<Rightarrow> js_value" where
  "capabilities account =
     JObject [(account,
       JObject [(''paymasterService'', JObject [(''supported'', JBool False)]),
                (''sessionKeys'', JObject [(''supported'', JBool False)])])]"

text \<open>
  The \<^verbatim>\<open>switch (request.method)\<close> of \<^verbatim>\<open>handleSessionRequest\<close> (first version of the
  file): the value of \<^verbatim>\<open>result\<close>, or the error thrown on the way.
\<close>

definition dispatch ::
    "environment \<Rightarrow> string \<Rightarrow> session_request \<Rightarrow> manager \<Rightarrow>
     (js_error + js_value) \<times> manager" where
  "dispatch env address event s =
     (let method = request_method event; params = request_params event
      in if method = ''eth_accounts'' then (Inr (JArray [JString address]), s)
         else if method = ''eth_requestAccounts'' then (Inr (JArray [JString address]), s)
         else if method = ''personal_sign'' then
           (case js_index params 0 of
              Inl e \<Rightarrow> (Inl e, s)
            | Inr message \<Rightarrow>
               (case js_index params 1 of
                  Inl e \<Rightarrow> (Inl e, s)
                | Inr signerAddress \<Rightarrow>
                   (case address_mismatch address signerAddress of
                      Some e \<Rightarrow> (Inl e, s)
                    | None \<Rightarrow> wallet_signMessage env message s)))
         else if method = ''eth_sign'' then
           (case js_index params 0 of
              Inl e \<Rightarrow> (Inl e, s)
            | Inr signAddress \<Rightarrow>
               (case js_index params 1 of
                  Inl e \<Rightarrow> (Inl e, s)
                | Inr data \<Rightarrow>
                   (case address_mismatch address signAddress of
                      Some e \<Rightarrow> (Inl e, s)
                    | None \<Rightarrow> wallet_signMessage env data s)))
         else if method = ''eth_sendTransaction'' \<or> method = ''eth_signTransaction'' then
           (case js_index params 0 of
              Inl e \<Rightarrow> (Inl e, s)
            | Inr transaction \<Rightarrow> wallet_signTransaction env transaction s)
         else if method = ''eth_signTypedData'' \<or> method = ''eth_signTypedData_v4'' then
           (case js_index params 1 of
              Inl e \<Rightarrow> (Inl e, s)
            | Inr typedData \<Rightarrow>
               (case js_prop typedData ''domain'' of
                  Inl e \<Rightarrow> (Inl e, s)
                | Inr d \<Rightarrow>
                   (case js_prop typedData ''types'' of
                      Inl e \<Rightarrow> (Inl e, s)
                    | Inr t \<Rightarrow>
                       (case js_prop typedData ''message'' of
                          Inl e \<Rightarrow> (Inl e, s)
                        | Inr m \<Rightarrow> wallet_signTypedData env d t m s))))
         else if method = ''wallet_getCapabilities'' then
           (case js_index params 0 of
              Inl e \<Rightarrow> (Inl e, s)
            | Inr requestedAccount \<Rightarrow>
               (case toLowerCase requestedAccount of
                  Inl e \<Rightarrow> (Inl e, s)
                | Inr l \<Rightarrow> (Inr (capabilities l), s)))
         else if method = ''eth_chainId'' then
           (Inr (JString (if isTestnet s then ''0xaa36a7'' else ''0x1'')), s)
         else if method = ''net_version'' then
           (Inr (JString (if isTestnet s then ''11155111'' else ''1'')), s)
         else if method = ''wallet_switchEthereumChain'' then
           (case js_index params 0 of
              Inl e \<Rightarrow> (Inl e, s)
            | Inr p \<Rightarrow>
               (case js_prop p ''chainId'' of
                  Inl e \<Rightarrow> (Inl e, s)
                | Inr chainId \<Rightarrow> (Inr JNull, s)))
         else if method = ''eth_getBalance'' then (Inr (JString ''0x0''), s)
         else if method = ''eth_getTransactionCount'' then (Inr (JString ''0x0''), s)
         else if method = ''wallet_addEthereumChain'' then
           (case js_index params 0 of
              Inl e \<Rightarrow> (Inl e, s)
            | Inr addChainParams \<Rightarrow> (Inr JNull, s))
         else if method = ''eth_gasPrice'' then (Inr (JString ''0x9184e72a000''), s)
         else if method = ''eth_estimateGas'' then (Inr (JString ''0x5208''), s)
         else (Inr JNull, s))"

text \<open>
  The session check at the head of \<^verbatim>\<open>handleSessionRequest\<close>: a topic missing from the
  cache is looked up in the transport; a failure to find it is only logged.
\<close>

definition sync_request_session :: "environment \<Rightarrow> string \<Rightarrow> manager \<Rightarrow> manager" where
  "sync_request_session env t s =
     (if \<not> map_has t (sessions s)
      then (case session_getAll env of
              Inl e \<Rightarrow> s
            | Inr activeSessions \<Rightarrow>
                (case find (\<lambda>x. session_topic x = t) activeSessions of
                   Some session \<Rightarrow>
                     s\<lparr>sessions :=
                         map_set t
                           \<lparr>topic = session_topic session,
                            peerMetadata = session_peer_metadata session\<rparr> (sessions s)\<rparr>
                 | None \<Rightarrow> s))
      else s)"

text \<open>
  The outer \<^verbatim>\<open>catch\<close> of \<^verbatim>\<open>handleSessionRequest\<close>: whatever was thrown, the peer is
  answered with the error \<^verbatim>\<open>{code: -32601, message: 'Method not found'}\<close>.
\<close>

definition request_catch ::
    "environment \<Rightarrow> session_request \<Rightarrow> manager \<Rightarrow> (js_error + unit) \<times> manager" where
  "request_catch env event s =
     (if signClient s
      then (let r = ErrorResponse (request_id event) (- 32601) ''Method not found'';
                s1 = do_call (Respond (request_topic event) r) s
            in case respond_throws env (request_topic event) r of
                 Some e \<Rightarrow> (Inl e, s1)
               | None \<Rightarrow> (Inr (), s1))
      else (Inr (), s))"

text \<open>
  \<^verbatim>\<open>handleSessionRequest\<close>.  A failure of the \<^verbatim>\<open>respond\<close> that carries the result is caught
  by the inner \<^verbatim>\<open>try\<close>, whose fallback is commented out in the source.
\<close>

definition handleSessionRequest ::
    "environment \<Rightarrow> session_request \<Rightarrow> manager \<Rightarrow> (js_error + unit) \<times> manager" where
  "handleSessionRequest env event s =
     (if \<not> signClient s then request_catch env event s
      else case wallet s of
        None \<Rightarrow> request_catch env event s
      | Some address \<Rightarrow>
          (let s1 = sync_request_session env (request_topic event) s
           in case dispatch env address event s1 of
                (Inl e, s2) \<Rightarrow> request_catch env event s2
              | (Inr result, s2) \<Rightarrow>
                  (Inr (),
                   do_call (Respond (request_topic event) (Result (request_id event) result))
                     s2)))"

section \<open>\<^verbatim>\<open>OpenSeaWalletConnectManager\<close> (\<^verbatim>\<open>walletconnect-opensea-fixed.ts\<close>)\<close>

text \<open>
  This manager uses the fields \<^verbatim>\<open>web3wallet\<close> (here \<open>signClient\<close>), \<^verbatim>\<open>wallet\<close> and
  \<^verbatim>\<open>sessions\<close>.  It approves every proposal at once, with a fixed namespace that has no
  \<^verbatim>\<open>chains\<close> key.
\<close>

definition opensea_chains :: "string list" where
  "opensea_chains =
     [''eip155:1'', ''eip155:137'', ''eip155:10'', ''eip155:42161'', ''eip155:8453'',
      ''eip155:11155111'']"

definition opensea_methods :: "string list" where
  "opensea_methods =
     [''eth_accounts'', ''eth_requestAccounts'', ''eth_sendTransaction'',
      ''eth_signTransaction'', ''eth_sign'', ''personal_sign'', ''eth_signTypedData'',
      ''eth_signTypedData_v3'', ''eth_signTypedData_v4'', ''eth_chainId'',
      ''wallet_switchEthereumChain'', ''wallet_addEthereumChain'',
      ''wallet_getCapabilities'', ''wallet_sendCalls'', ''wallet_getCallsStatus'',
      ''eth_getBalance'', ''eth_getTransactionCount'', ''eth_call'', ''eth_estimateGas'',
      ''eth_gasPrice'', ''net_version'']"

definition opensea_namespaces :: "string \<Rightarrow> namespaces" where
  "opensea_namespaces address =
     [(''eip155'',
       \<lparr>accounts = map (account_of address) opensea_chains, methods = opensea_methods,
        events = [''chainChanged'', ''accountsChanged''], chains = None\<rparr>)]"

definition onSessionProposal ::
    "environment \<Rightarrow> session_proposal \<Rightarrow> manager \<Rightarrow> (js_error + unit) \<times> manager" where
  "onSessionProposal env proposal s =
     (if \<not> signClient s then (Inr (), s)
      else case wallet s of
        None \<Rightarrow> (Inr (), do_call (Reject (proposal_id proposal)) s)
      | Some address \<Rightarrow>
          (let ns = opensea_namespaces address;
               s1 = do_call (Approve (proposal_id proposal) ns) s
           in case approve env (proposal_id proposal) ns of
                Inl e \<Rightarrow> (Inr (), do_call (Reject (proposal_id proposal)) s1)
              | Inr session \<Rightarrow>
                  (Inr (),
                   s1\<lparr>sessions :=
                        store_session (session_topic session) (proposer_metadata proposal)
                          (sessions s1)\<rparr>)))"

text \<open>
  \<^verbatim>\<open>message && message.startsWith('0x') && message.length === 42\<close> and
  \<^verbatim>\<open>message && message.startsWith('0x')\<close>: a truthy value that is not a string has no
  \<^verbatim>\<open>startsWith\<close>, and the call throws.
\<close>

definition looks_like_address :: "js_value \<Rightarrow> js_error + bool" where
  "looks_like_address v =
     (if truthy v
      then (case v of
              JString m \<Rightarrow> Inr (startsWith m ''0x'' \<and> length m = 42)
            | _ \<Rightarrow> Inl TypeError)
      else Inr False)"

definition has_hex_prefix :: "js_value \<Rightarrow> js_error + bool" where
  "has_hex_prefix v =
     (if truthy v
      then (case v of JString m \<Rightarrow> Inr (startsWith m ''0x'') | _ \<Rightarrow> Inl TypeError)
      else Inr False)"

text \<open>
  The message \<^verbatim>\<open>personal_sign\<close> signs: the text behind a hex payload when that text is a
  Sign-In with Ethereum message, the payload itself otherwise (also when decoding throws:
  the inner \<^verbatim>\<open>try\<close> only logs).
\<close>

definition messageToSign :: "environment \<Rightarrow> js_value \<Rightarrow> js_value" where
  "messageToSign env message =
     (case hex_to_utf8 env (drop 2 (the_string message)) of
        Inl e \<Rightarrow> message
      | Inr decodedMessage \<Rightarrow>
          if str_includes decodedMessage ''wants you to sign in with your Ethereum account''
          then JString decodedMessage else message)"

text \<open>\<^verbatim>\<open>{ ...types }\<close> followed by \<^verbatim>\<open>delete typesWithoutDomain.EIP712Domain\<close>.\<close>

fun object_spread :: "js_value \<Rightarrow> (string \<times> js_value) list" where
  "object_spread (JObject kvs) = kvs"
| "object_spread (JArray xs) = zip (map string_of_nat [0..<length xs]) xs"
| "object_spread (JString x) =
     zip (map string_of_nat [0..<length x]) (map (\<lambda>c. JString [c]) x)"
| "object_spread v = []"

definition typesWithoutDomain :: "js_value \<Rightarrow> js_value" where
  "typesWithoutDomain types = JObject (map_delete ''EIP712Domain'' (object_spread types))"

text \<open>The \<^verbatim>\<open>switch (request.method)\<close> of \<^verbatim>\<open>onSessionRequest\<close>.\<close>

definition opensea_dispatch ::
    "environment \<Rightarrow> string \<Rightarrow> session_request \<Rightarrow> manager \<Rightarrow>
     (js_error + js_value) \<times> manager" where
  "opensea_dispatch env address event s =
     (let method = request_method event; params = request_params event
      in if method = ''eth_accounts'' \<or> method = ''eth_requestAccounts''
         then (Inr (JArray [JString address]), s)
         else if method = ''personal_sign'' then
           (case js_index params 0 of
              Inl e \<Rightarrow> (Inl e, s)
            | Inr p0 \<Rightarrow>
               (case js_index params 1 of
                  Inl e \<Rightarrow> (Inl e, s)
                | Inr p1 \<Rightarrow>
                   (case looks_like_address p0 of
                      Inl e \<Rightarrow> (Inl e, s)
                    | Inr swap \<Rightarrow>
                       (let message = (if swap then p1 else p0)
                        in case has_hex_prefix message of
                             Inl e \<Rightarrow> (Inl e, s)
                           | Inr hex \<Rightarrow>
                               wallet_signMessage env
                                 (if hex then messageToSign env message else message) s))))
         else if method = ''eth_sign'' then
           (case js_index params 1 of
              Inl e \<Rightarrow> (Inl e, s)
            | Inr data \<Rightarrow> wallet_signMessage env data s)
         else if method = ''eth_signTypedData'' \<or> method = ''eth_signTypedData_v3'' \<or>
                 method = ''eth_signTypedData_v4'' then
           (case js_index params 1 of
              Inl e \<Rightarrow> (Inl e, s)
            | Inr p1 \<Rightarrow>
               (case (case p1 of JString t \<Rightarrow> JSON_parse env t | _ \<Rightarrow> Inr p1) of
                  Inl e \<Rightarrow> (Inl e, s)
                | Inr typedData \<Rightarrow>
                   (case js_prop typedData ''domain'' of
                      Inl e \<Rightarrow> (Inl e, s)
                    | Inr d \<Rightarrow>
                       (case js_prop typedData ''types'' of
                          Inl e \<Rightarrow> (Inl e, s)
                        | Inr t \<Rightarrow>
                           (case js_prop typedData ''message'' of
                              Inl e \<Rightarrow> (Inl e, s)
                            | Inr dataMessage \<Rightarrow>
                                wallet_signTypedData env d (typesWithoutDomain t)
                                  dataMessage s)))))
         else if method = ''eth_sendTransaction'' then
           (case js_index params 0 of
              Inl e \<Rightarrow> (Inl e, s)
            | Inr tx \<Rightarrow> wallet_sendTransaction env tx s)
         else if method = ''eth_chainId'' then (Inr (JString ''0x1''), s)
         else if method = ''net_version'' then (Inr (JString ''1''), s)
         else if method = ''wallet_switchEthereumChain'' then (Inr JNull, s)
         else if method = ''wallet_addEthereumChain'' then (Inr JNull, s)
         else if method = ''wallet_getCapabilities'' then
           (case js_index params 0 of
              Inl e \<Rightarrow> (Inl e, s)
            | Inr account \<Rightarrow> (Inr (capabilities (property_key env account)), s))
         else if method = ''eth_getBalance'' then (Inr (JString ''0x0''), s)
         else if method = ''eth_getTransactionCount'' then (Inr (JString ''0x0''), s)
         else if method = ''eth_gasPrice'' then (Inr (JString ''0x3b9aca00''), s)
         else if method = ''eth_estimateGas'' then (Inr (JString ''0x5208''), s)
         else (Inl (Error (''Unsupported method: '' @ method)), s))"

text \<open>
  The \<^verbatim>\<open>catch\<close> of \<^verbatim>\<open>onSessionRequest\<close> starts with
  \<^verbatim>\<open>console.error('Method:', request.method)\<close>.  \<^verbatim>\<open>request\<close> is a \<^verbatim>\<open>const\<close> of the
  \<^verbatim>\<open>try\<close> block and no binding of that name is in scope in the \<^verbatim>\<open>catch\<close>, so the read
  throws a ReferenceError and the statements that follow it (the error response) do not
  run.
\<close>

definition opensea_request_catch :: "manager \<Rightarrow> (js_error + unit) \<times> manager" where
  "opensea_request_catch s = (Inl ReferenceError, s)"

definition onSessionRequest ::
    "environment \<Rightarrow> session_request \<Rightarrow> manager \<Rightarrow> (js_error + unit) \<times> manager" where
  "onSessionRequest env event s =
     (if \<not> signClient s then opensea_request_catch s
      else case wallet s of
        None \<Rightarrow> opensea_request_catch s
      | Some address \<Rightarrow>
          (case opensea_dispatch env address event s of
             (Inl e, s1) \<Rightarrow> opensea_request_catch s1
           | (Inr result, s1) \<Rightarrow>
               (let r = Result (request_id event) result;
                    s2 = do_call (Respond (request_topic event) r) s1
                in case respond_throws env (request_topic event) r of
                     Some e \<Rightarrow> opensea_request_catch s2
                   | None \<Rightarrow> (Inr (), s2))))"

text \<open>\<^verbatim>\<open>disconnectSession\<close> logs a failure of the transport and does not throw it again.\<close>

definition opensea_disconnectSession ::
    "environment \<Rightarrow> string \<Rightarrow> manager \<Rightarrow> (js_error + unit) \<times> manager" where
  "opensea_disconnectSession env t s =
     (if signClient s \<and> map_has t (sessions s)
      then (let s1 = do_call (Disconnect t) s
            in case disconnect_throws env t of
                 Some e \<Rightarrow> (Inr (), s1)
               | None \<Rightarrow> (Inr (), s1\<lparr>sessions := map_delete t (sessions s1)\<rparr>))
      else (Inr (), s))"

definition opensea_getSessions :: "manager \<Rightarrow> WalletConnectSession list" where
  "opensea_getSessions s = map_values (sessions s)"

section \<open>\<^verbatim>\<open>WalletConnectManager\<close> (\<^verbatim>\<open>walletconnect.ts\<close>)\<close>

text \<open>Its only field is the \<^verbatim>\<open>sessions\<close> map.\<close>

definition uniswap_metadata :: peer_metadata where
  "uniswap_metadata =
     \<lparr>name = ''Uniswap Interface'',
      description =
        ''Swap, earn, and build on the leading decentralized crypto trading protocol'',
      url = ''https://app.uniswap.org'',
      icons = [''https://app.uniswap.org/favicon.ico'']\<rparr>"

definition wc_connectWithUri ::
    "environment \<Rightarrow> string \<Rightarrow> string \<Rightarrow> sessions_map \<Rightarrow> (js_error + unit) \<times> sessions_map" where
  "wc_connectWithUri env uri privateKey m =
     (if \<not> startsWith uri ''wc:'' then (Inl (Error ''Invalid WalletConnect URI format''), m)
      else (let uriParts = split_char CHR ''@'' uri
            in if length uriParts \<noteq> 2 then (Inl (Error ''Invalid URI structure''), m)
               else (let t = remove_first ''wc:'' (uriParts ! 0)
                     in case new_Wallet env privateKey of
                          Inl e \<Rightarrow> (Inl e, m)
                        | Inr address \<Rightarrow>
                            (Inr (),
                             map_set t \<lparr>topic = t, peerMetadata = uniswap_metadata\<rparr> m))))"

definition wc_getSessions :: "sessions_map \<Rightarrow> WalletConnectSession list" where
  "wc_getSessions m = map_values m"

definition wc_disconnectSession :: "string \<Rightarrow> sessions_map \<Rightarrow> sessions_map" where
  "wc_disconnectSession t m = (if map_has t m then map_delete t m else m)"

definition wc_disconnectAll :: "sessions_map \<Rightarrow> sessions_map" where
  "wc_disconnectAll m = fold wc_disconnectSession (map_keys m) m"

section \<open>\<^verbatim>\<open>WalletManager\<close> (\<^verbatim>\<open>wallet.ts\<close>): password encryption of the private key\<close>

text \<open>
  The cryptography is not code of the repository: \<^verbatim>\<open>crypto-js\<close> (word arrays, the hex
  encoder, AES in CBC mode with PKCS7 padding, the UTF-8 encoder), \<^verbatim>\<open>@noble/hashes\<close>
  (PBKDF2 with SHA-256) and the built-in \<^verbatim>\<open>JSON\<close>.  Each library call the two functions
  make is a field of the record below; \<open>'w\<close> is the type of word arrays and \<open>'j\<close> the type
  of JSON texts.  A call returns a value or throws.
  \<^item> \<open>WordArray_toString w\<close> is \<^verbatim>\<open>w.toString()\<close>;
  \<^item> \<open>Hex_parse v\<close> is \<^verbatim>\<open>CryptoJS.enc.Hex.parse(v)\<close>;
  \<^item> \<open>pbkdf2 password salt c dkLen\<close> is \<^verbatim>\<open>pbkdf2(sha256, password, salt, {c, dkLen})\<close>;
  \<^item> \<open>AES_encrypt message key iv\<close> is
    \<^verbatim>\<open>CryptoJS.AES.encrypt(message, key, {iv, mode: CBC, padding: Pkcs7}).toString()\<close>;
  \<^item> \<open>AES_decrypt v key iv\<close> is
    \<^verbatim>\<open>CryptoJS.AES.decrypt(v, key, {iv, mode: CBC, padding: Pkcs7}).toString(CryptoJS.enc.Utf8)\<close>.
\<close>

record ('w, 'j) crypto_lib =
  WordArray_toString :: "'w \<Rightarrow> string"
  Hex_parse :: "js_value \<Rightarrow> js_error + 'w"
  pbkdf2 :: "string \<Rightarrow> js_value \<Rightarrow> nat \<Rightarrow> nat \<Rightarrow> js_error + 8 word list"
  AES_encrypt :: "string \<Rightarrow> 'w \<Rightarrow> 'w \<Rightarrow> js_error + string"
  AES_decrypt :: "js_value \<Rightarrow> 'w \<Rightarrow> 'w \<Rightarrow> js_error + string"
  JSON_stringify :: "js_value \<Rightarrow> 'j"
  JSON_parse_text :: "'j \<Rightarrow> js_error + js_value"

text \<open>
  \<^verbatim>\<open>Array.from(keyBytes).map(b => b.toString(16).padStart(2, '0')).join('')\<close>
\<close>

definition hex_digit :: "nat \<Rightarrow> char" where
  "hex_digit n = ''0123456789abcdef'' ! n"

definition hex_byte :: "8 word \<Rightarrow> string" where
  "hex_byte b = [hex_digit (unat b div 16), hex_digit (unat b mod 16)]"

definition hex_of_bytes :: "8 word list \<Rightarrow> string" where
  "hex_of_bytes bs = concat (map hex_byte bs)"

text \<open>The object \<^verbatim>\<open>{salt, iv, encrypted}\<close> that is serialised.\<close>

definition blob_object :: "string \<Rightarrow> string \<Rightarrow> string \<Rightarrow> js_value" where
  "blob_object salt_hex iv_hex encrypted =
     JObject [(''salt'', JString salt_hex), (''iv'', JString iv_hex),
              (''encrypted'', JString encrypted)]"

text \<open>
  \<^verbatim>\<open>encryptPrivateKey\<close>.  The two random word arrays it draws
  (\<^verbatim>\<open>WordArray.random(256/8)\<close> for the salt, \<^verbatim>\<open>WordArray.random(128/8)\<close> for the IV) are
  arguments.  Whatever is thrown inside the \<^verbatim>\<open>try\<close> is replaced by
  \<^verbatim>\<open>Error('Failed to encrypt private key')\<close>.
\<close>

definition encryptPrivateKey ::
    "('w, 'j) crypto_lib \<Rightarrow> 'w \<Rightarrow> 'w \<Rightarrow> string \<Rightarrow> string \<Rightarrow> js_error + 'j" where
  "encryptPrivateKey lib salt iv privateKey password =
     (case pbkdf2 lib password (JString (WordArray_toString lib salt)) 100000 32 of
        Inl e \<Rightarrow> Inl (Error ''Failed to encrypt private key'')
      | Inr keyBytes \<Rightarrow>
         (case Hex_parse lib (JString (hex_of_bytes keyBytes)) of
            Inl e \<Rightarrow> Inl (Error ''Failed to encrypt private key'')
          | Inr key \<Rightarrow>
             (case AES_encrypt lib privateKey key iv of
                Inl e \<Rightarrow> Inl (Error ''Failed to encrypt private key'')
              | Inr encrypted \<Rightarrow>
                  Inr (JSON_stringify lib
                         (blob_object (WordArray_toString lib salt)
                            (WordArray_toString lib iv) encrypted)))))"

text \<open>
  \<^verbatim>\<open>decryptPrivateKey\<close>.  Whatever is thrown inside the \<^verbatim>\<open>try\<close> is replaced by
  \<^verbatim>\<open>Error('Failed to decrypt private key')\<close>; the string the library returns is
  returned as it is.
\<close>

definition decryptPrivateKey ::
    "('w, 'j) crypto_lib \<Rightarrow> 'j \<Rightarrow> string \<Rightarrow> js_error + string" where
  "decryptPrivateKey lib encryptedData password =
     (case JSON_parse_text lib encryptedData of
        Inl e \<Rightarrow> Inl (Error ''Failed to decrypt private key'')
      | Inr data \<Rightarrow>
         (case js_prop data ''salt'' of
            Inl e \<Rightarrow> Inl (Error ''Failed to decrypt private key'')
          | Inr salt \<Rightarrow>
             (case pbkdf2 lib password salt 100000 32 of
                Inl e \<Rightarrow> Inl (Error ''Failed to decrypt private key'')
              | Inr keyBytes \<Rightarrow>
                 (case Hex_parse lib (JString (hex_of_bytes keyBytes)) of
                    Inl e \<Rightarrow> Inl (Error ''Failed to decrypt private key'')
                  | Inr key \<Rightarrow>
                     (case js_prop data ''iv'' of
                        Inl e \<Rightarrow> Inl (Error ''Failed to decrypt private key'')
                      | Inr iv_hex \<Rightarrow>
                         (case Hex_parse lib iv_hex of
                            Inl e \<Rightarrow> Inl (Error ''Failed to decrypt private key'')
                          | Inr iv \<Rightarrow>
                             (case js_prop data ''encrypted'' of
                                Inl e \<Rightarrow> Inl (Error ''Failed to decrypt private key'')
                              | Inr encrypted \<Rightarrow>
                                 (case AES_decrypt lib encrypted key iv of
                                    Inl e \<Rightarrow> Inl (Error ''Failed to decrypt private key'')
                                  | Inr decrypted \<Rightarrow> Inr decrypted))))))))"

section \<open>Runs of the managers\<close>

text \<open>
  The case labels of the \<^verbatim>\<open>switch\<close> of \<^verbatim>\<open>handleSessionRequest\<close>; every other method
  name falls to \<^verbatim>\<open>default\<close>.
\<close>

definition handled_methods :: "string list" where
  "handled_methods =
     [''eth_accounts'', ''eth_requestAccounts'', ''personal_sign'', ''eth_sign'',
      ''eth_sendTransaction'', ''eth_signTransaction'', ''eth_signTypedData'',
      ''eth_signTypedData_v4'', ''wallet_getCapabilities'', ''eth_chainId'',
      ''net_version'', ''wallet_switchEthereumChain'', ''eth_getBalance'',
      ''eth_getTransactionCount'', ''wallet_addEthereumChain'', ''eth_gasPrice'',
      ''eth_estimateGas'']"

text \<open>
  The invariant of a \<^verbatim>\<open>sessions\<close> map: every key is the topic of the session stored under
  it (and, as in any \<^verbatim>\<open>Map\<close>, no key occurs twice).
\<close>

definition sessions_inv :: "sessions_map \<Rightarrow> bool" where
  "sessions_inv m = (distinct (map_keys m) \<and> list_all (\<lambda>e. topic (snd e) = fst e) m)"

text \<open>
  The entry points of \<^verbatim>\<open>RealWalletConnectManager\<close>: its public methods and the listeners
  it registers on the transport.  Each runs to completion; the outside world may answer
  differently at every step.
\<close>

datatype real_event =
    Initialize
  | SetOnProposalCallback
  | ConnectWithUri string string bool
  | SessionProposal session_proposal
  | ApproveProposal int
  | RejectProposal int
  | SessionRequest session_request
  | SessionDelete string
  | SessionExpire string
  | GetSessions
  | DisconnectSession string
  | DisconnectAll

fun real_step :: "environment \<times> real_event \<Rightarrow> manager \<Rightarrow> manager" where
  "real_step (env, Initialize) s = snd (initialize env s)"
| "real_step (env, SetOnProposalCallback) s = s\<lparr>onProposalCallback := True\<rparr>"
| "real_step (env, ConnectWithUri uri privateKey testnet) s =
     snd (connectWithUri env uri privateKey testnet s)"
| "real_step (env, SessionProposal event) s = snd (handleSessionProposal env event s)"
| "real_step (env, ApproveProposal i) s = snd (approveProposal env i s)"
| "real_step (env, RejectProposal i) s = snd (rejectProposal env i s)"
| "real_step (env, SessionRequest event) s = snd (handleSessionRequest env event s)"
| "real_step (env, SessionDelete t) s = on_session_delete t s"
| "real_step (env, SessionExpire t) s = on_session_expire t s"
| "real_step (env, GetSessions) s = snd (getSessions env s)"
| "real_step (env, DisconnectSession t) s = snd (disconnectSession env t s)"
| "real_step (env, DisconnectAll) s = snd (disconnectAll env s)"

definition real_run :: "(environment \<times> real_event) list \<Rightarrow> manager" where
  "real_run evs = fold real_step evs new_manager"

text \<open>The entry points of \<^verbatim>\<open>OpenSeaWalletConnectManager\<close>.\<close>

definition opensea_initialize :: "environment \<Rightarrow> manager \<Rightarrow> (js_error + unit) \<times> manager" where
  "opensea_initialize env s =
     (if signClient s then (Inr (), s)
      else case init_throws env of
        Some e \<Rightarrow> (Inl e, s)
      | None \<Rightarrow> (Inr (), s\<lparr>signClient := True\<rparr>))"

definition opensea_connectWithUri ::
    "environment \<Rightarrow> string \<Rightarrow> string \<Rightarrow> manager \<Rightarrow> (js_error + unit) \<times> manager" where
  "opensea_connectWithUri env uri privateKey s =
     (case opensea_initialize env s of
        (Inl e, s1) \<Rightarrow> (Inl e, s1)
      | (Inr u, s1) \<Rightarrow>
          (case new_Wallet env privateKey of
             Inl e \<Rightarrow> (Inl e, s1)
           | Inr address \<Rightarrow>
               (let s2 = s1\<lparr>wallet := Some address\<rparr>
                in if signClient s2
                   then (case pair_throws env uri of
                           Some e \<Rightarrow> (Inl e, do_call (Pair uri) s2)
                         | None \<Rightarrow> (Inr (), do_call (Pair uri) s2))
                   else (Inr (), s2))))"

datatype opensea_event =
    OpenSea_initialize
  | OpenSea_connectWithUri string string
  | OpenSea_session_proposal session_proposal
  | OpenSea_session_request session_request
  | OpenSea_session_delete string
  | OpenSea_disconnectSession string

fun opensea_step :: "environment \<times> opensea_event \<Rightarrow> manager \<Rightarrow> manager" where
  "opensea_step (env, OpenSea_initialize) s = snd (opensea_initialize env s)"
| "opensea_step (env, OpenSea_connectWithUri uri privateKey) s =
     snd (opensea_connectWithUri env uri privateKey s)"
| "opensea_step (env, OpenSea_session_proposal proposal) s =
     snd (onSessionProposal env proposal s)"
| "opensea_step (env, OpenSea_session_request event) s = snd (onSessionRequest env event s)"
| "opensea_step (env, OpenSea_session_delete t) s = on_session_delete t s"
| "opensea_step (env, OpenSea_disconnectSession t) s =
     snd (opensea_disconnectSession env t s)"

definition opensea_run :: "(environment \<times> opensea_event) list \<Rightarrow> manager" where
  "opensea_run evs = fold opensea_step evs new_manager"

text \<open>The public methods of \<^verbatim>\<open>WalletConnectManager\<close>.\<close>

datatype wc_event =
    WC_connectWithUri string string
  | WC_disconnectSession string
  | WC_disconnectAll

fun wc_step :: "environment \<times> wc_event \<Rightarrow> sessions_map \<Rightarrow> sessions_map" where
  "wc_step (env, WC_connectWithUri uri privateKey) m = snd (wc_connectWithUri env uri privateKey m)"
| "wc_step (env, WC_disconnectSession t) m = wc_disconnectSession t m"
| "wc_step (env, WC_disconnectAll) m = wc_disconnectAll m"

definition wc_run :: "(environment \<times> wc_event) list \<Rightarrow> sessions_map" where
  "wc_run evs = fold wc_step evs []"

text \<open>
  The remaining managers of the repository (\<^verbatim>\<open>UniversalWalletConnectManager\<close> and the
  earlier versions of \<^verbatim>\<open>RealWalletConnectManager\<close> and \<^verbatim>\<open>OpenSeaWalletConnectManager\<close>)
  touch their \<^verbatim>\<open>sessions\<close> map through three statements only:
  \<^verbatim>\<open>this.sessions.set(session.topic, {topic: session.topic, peerMetadata: proposer.metadata})\<close>
  after an approval (in \<^verbatim>\<open>UniversalWalletConnectManager\<close> the topic is the mock
  \<^verbatim>\<open>`mock-topic-${id}`\<close>), \<^verbatim>\<open>this.sessions.delete(topic)\<close> in the listeners of
  \<^verbatim>\<open>session_delete\<close> and \<^verbatim>\<open>session_expire\<close> and in \<^verbatim>\<open>disconnectSession\<close>, and
  \<^verbatim>\<open>this.sessions.clear()\<close> in \<^verbatim>\<open>UniversalWalletConnectManager.disconnect\<close>.  A run of such
  a manager executes a sequence of these statements.
\<close>

datatype sessions_statement =
    Sessions_set string peer_metadata
  | Sessions_delete string
  | Sessions_clear

fun run_statement :: "sessions_statement \<Rightarrow> sessions_map \<Rightarrow> sessions_map" where
  "run_statement (Sessions_set t md) m = store_session t md m"
| "run_statement (Sessions_delete t) m = map_delete t m"
| "run_statement Sessions_clear m = []"

definition statements_run :: "sessions_statement list \<Rightarrow> sessions_map" where
  "statements_run stmts = fold run_statement stmts []"

section \<open>A cooperative outside world, for concrete runs\<close>

definition opensea_peer :: peer_metadata where
  "opensea_peer =
     \<lparr>name = ''OpenSea'', description = ''NFT marketplace'', url = ''https://opensea.io'',
      icons = []\<rparr>"

text \<open>
  Every call of the transport succeeds, the transport holds no session of its own, and the
  wallet answers with fixed strings.
\<close>

definition quiet_env :: environment where
  "quiet_env =
     \<lparr>approve = (\<lambda>i ns. Inr \<lparr>session_topic = ''topic-1'', session_peer_metadata = opensea_peer\<rparr>),
      reject_throws = (\<lambda>i. None),
      respond_throws = (\<lambda>t r. None),
      disconnect_throws = (\<lambda>t. None),
      pair_throws = (\<lambda>u. None),
      init_throws = None,
      session_getAll = Inr [],
      new_Wallet = (\<lambda>k. Inr ''0x2222222222222222222222222222222222222222''),
      signMessage = (\<lambda>v. Inr ''signature''),
      signTransaction = (\<lambda>v. Inr ''signed-transaction''),
      signTypedData = (\<lambda>d t m. Inr ''typed-data-signature''),
      sendTransaction = (\<lambda>v. Inr ''transaction-hash''),
      hex_to_utf8 = (\<lambda>h. Inr ''hello''),
      JSON_parse = (\<lambda>t. Inl (Error ''SyntaxError'')),
      property_key = the_string\<rparr>"

text \<open>A manager after a successful \<^verbatim>\<open>connectWithUri\<close>: client and wallet are set.\<close>

definition connected_manager :: manager where
  "connected_manager =
     new_manager\<lparr>signClient := True,
                 wallet := Some ''0x2222222222222222222222222222222222222222''\<rparr>"

text \<open>
  A stand-in for the cryptographic libraries, for concrete runs.  Word arrays and JSON
  texts stand for themselves, the derived key is the bytes of the password, and a
  ciphertext is the key bytes and the IV (in hex) followed by the message.  Decryption
  under the key and IV of the encryption returns the message; under any other key or IV
  the stand-in returns the empty string, which is what \<^verbatim>\<open>crypto-js\<close> returns when the last
  byte of the wrongly decrypted data is at least the length of the data.
\<close>

definition stand_in_lib :: "(string, js_value) crypto_lib" where
  "stand_in_lib =
     \<lparr>WordArray_toString = (\<lambda>w. w),
      Hex_parse = (\<lambda>v. case v of JString x \<Rightarrow> Inr x | _ \<Rightarrow> Inl TypeError),
      pbkdf2 = (\<lambda>password salt c dkLen.
                  case salt of
                    JString x \<Rightarrow> Inr (map (\<lambda>ch. of_nat (of_char ch)) password)
                  | _ \<Rightarrow> Inl TypeError),
      AES_encrypt = (\<lambda>message key iv. Inr (key @ iv @ message)),
      AES_decrypt = (\<lambda>v key iv.
                  case v of
                    JString c \<Rightarrow>
                      Inr (if startsWith c (key @ iv) then drop (length (key @ iv)) c
                           else [])
                  | _ \<Rightarrow> Inl TypeError),
      JSON_stringify = (\<lambda>v. v),
      JSON_parse_text = (\<lambda>t. Inr t)\<rparr>"

text \<open>
  The contract the round trip relies on: hex parsing inverts \<^verbatim>\<open>toString\<close> on word
  arrays, decryption under the key and IV of the encryption returns the message, and
  \<^verbatim>\<open>JSON.parse\<close> inverts \<^verbatim>\<open>JSON.stringify\<close> on the serialised object.
\<close>

definition lib_round_trips :: "('w, 'j) crypto_lib \<Rightarrow> bool" where
  "lib_round_trips lib =
     ((\<forall>w. Hex_parse lib (JString (WordArray_toString lib w)) = Inr w) \<and>
      (\<forall>message key iv c.
          AES_encrypt lib message key iv = Inr c \<longrightarrow>
          AES_decrypt lib (JString c) key iv = Inr message) \<and>
      (\<forall>x y z. JSON_parse_text lib (JSON_stringify lib (blob_object x y z)) =
                 Inr (blob_object x y z)))"

section \<open>Verified properties\<close>

subsection \<open>Namespace negotiation\<close>

lemma account_of_image: "account_of a c \<in> account_of a ` S \<longleftrightarrow> c \<in> S"
  by (auto simp: account_of_def)

lemma set_set_spread: "set (set_spread xs) = set xs"
  by (simp add: set_spread_def)

lemma distinct_set_spread: "distinct (set_spread xs)"
  by (simp add: set_spread_def)

lemma buildNamespaces_keys:
  "map_keys (buildNamespaces dc a req opt) = [''eip155'']"
  by (auto simp: buildNamespaces_def last_resort_step_def empty_step_def optional_step_def
      required_step_def map_get_def map_keys_def or_else_def Let_def split: option.splits)

lemma buildNamespaces_empty:
  "buildNamespaces dc a [] None =
     [(''eip155'', \<lparr>accounts = [dc @ '':'' @ a], methods = opensea_default_methods,
        events = [''chainChanged'', ''accountsChanged''], chains = Some [dc]\<rparr>)]"
  "buildNamespaces dc a [] (Some []) =
     [(''eip155'', \<lparr>accounts = [dc @ '':'' @ a], methods = opensea_default_methods,
        events = [''chainChanged'', ''accountsChanged''], chains = Some [dc]\<rparr>)]"
  by (simp_all add: buildNamespaces_def last_resort_step_def empty_step_def
      optional_step_def required_step_def map_get_def map_keys_def account_of_def
      default_events_def)

lemma buildNamespaces_required_only:
  assumes "map_get ''eip155'' req = Some r"
    and "case opt of None \<Rightarrow> True | Some ons \<Rightarrow> map_get ''eip155'' ons = None"
  shows "buildNamespaces dc a req opt =
     [(''eip155'', \<lparr>accounts = map (account_of a) (or_else (req_chains r) [dc]),
        methods = or_else (req_methods r) [], events = or_else (req_events r) [],
        chains = Some (or_else (req_chains r) [dc])\<rparr>)]"
  using assms
  by (auto simp: buildNamespaces_def last_resort_step_def empty_step_def optional_step_def
      required_step_def map_get_def map_keys_def or_else_def Let_def split: option.splits)

lemma buildNamespaces_optional_only:
  assumes "map_get ''eip155'' req = None"
    and "opt = Some ons" "map_get ''eip155'' ons = Some p"
  shows "buildNamespaces dc a req opt =
     [(''eip155'',
       \<lparr>accounts = (if or_else (req_chains p) [] = [] then [account_of a dc]
                    else map (account_of a) (or_else (req_chains p) [])),
        methods = or_else (req_methods p) [], events = or_else (req_events p) [],
        chains = Some (if or_else (req_chains p) [] = [] then [dc]
                       else or_else (req_chains p) [])\<rparr>)]"
  using assms
  by (auto simp: buildNamespaces_def last_resort_step_def empty_step_def optional_step_def
      required_step_def map_get_def map_keys_def or_else_def Let_def split: option.splits)

lemma buildNamespaces_merge:
  assumes "map_get ''eip155'' req = Some r"
    and "opt = Some ons" "map_get ''eip155'' ons = Some p"
    and "\<not> set (or_else (req_chains p) []) \<subseteq> set (or_else (req_chains r) [dc])"
  shows "buildNamespaces dc a req opt =
     [(''eip155'',
       \<lparr>accounts = map (account_of a) (or_else (req_chains r) [dc]) @
                   map (account_of a)
                     (filter (\<lambda>c. c \<notin> set (or_else (req_chains r) [dc]))
                        (or_else (req_chains p) [])),
        methods = set_spread (or_else (req_methods r) [] @ or_else (req_methods p) []),
        events = set_spread (or_else (req_events r) [] @ or_else (req_events p) []),
        chains = Some (set_spread (or_else (req_chains r) [dc] @ or_else (req_chains p) []))\<rparr>)]"
    (is "_ = [(_, ?E')]")
proof -
  let ?rcs = "or_else (req_chains r) [dc]"
  let ?ocs = "or_else (req_chains p) []"
  let ?E = "\<lparr>accounts = map (account_of a) ?rcs, methods = or_else (req_methods r) [],
             events = or_else (req_events r) [], chains = Some ?rcs\<rparr>"
  have s1: "required_step dc a req [] = [(''eip155'', ?E)]"
    using assms(1) by (simp add: required_step_def Let_def)
  have look: "map_get ''eip155'' [(''eip155'', ?E)] = Some ?E"
    by (simp add: map_get_def)
  have f: "filter (\<lambda>chain. account_of a chain \<notin> set (accounts ?E)) ?ocs =
           filter (\<lambda>c. c \<notin> set ?rcs) ?ocs"
    by (simp add: account_of_image)
  have ne: "filter (\<lambda>c. c \<notin> set ?rcs) ?ocs \<noteq> []"
    using assms(4) by (auto simp: filter_empty_conv)
  have s2: "optional_step dc a opt [(''eip155'', ?E)] = [(''eip155'', ?E')]"
    unfolding optional_step_def assms(2) option.case assms(3) Let_def look f
    using ne by (simp add: or_else_def)
  have req_ne: "length (map_keys req) \<noteq> 0"
    using assms(1) by (auto simp: map_get_def map_keys_def)
  have s3: "empty_step dc a req opt [(''eip155'', ?E')] = [(''eip155'', ?E')]"
    using req_ne by (simp add: empty_step_def)
  have s4: "last_resort_step dc a [(''eip155'', ?E')] = [(''eip155'', ?E')]"
    by (simp add: last_resort_step_def map_keys_def)
  show ?thesis
    by (simp only: buildNamespaces_def s1 s2 s3 s4)
qed

text \<open>
  Claim C5, as the code has it.  A proposal with no required namespace and no optional
  namespace (absent or empty) is approved with exactly one namespace, \<^verbatim>\<open>eip155\<close>, holding
  one chain, one account of the form chain:address, the seventeen default methods (among
  them the account query, message signing, typed-data signing and transaction signing
  and sending) and the events \<^verbatim>\<open>chainChanged\<close> and \<^verbatim>\<open>accountsChanged\<close>.  The chain is the
  default chain of the manager: in the first version \<^verbatim>\<open>eip155:1\<close> on mainnet and
  \<^verbatim>\<open>eip155:11155111\<close> in testnet mode, in the second version the selected chain, which is
  \<^verbatim>\<open>eip155:1\<close> when no chain is selected.
\<close>

theorem empty_proposal_default_namespace:
  "namespaces_testnet testnet address [] None =
     [(''eip155'',
       \<lparr>accounts = [defaultChain_testnet testnet @ '':'' @ address],
        methods = opensea_default_methods,
        events = [''chainChanged'', ''accountsChanged''],
        chains = Some [defaultChain_testnet testnet]\<rparr>)] \<and>
   namespaces_testnet testnet address [] (Some []) =
     namespaces_testnet testnet address [] None \<and>
   namespaces_current currentChain_id address [] None =
     [(''eip155'',
       \<lparr>accounts = [defaultChain_current currentChain_id @ '':'' @ address],
        methods = opensea_default_methods,
        events = [''chainChanged'', ''accountsChanged''],
        chains = Some [defaultChain_current currentChain_id]\<rparr>)] \<and>
   namespaces_current currentChain_id address [] (Some []) =
     namespaces_current currentChain_id address [] None \<and>
   defaultChain_testnet testnet = (if testnet then ''eip155:11155111'' else ''eip155:1'') \<and>
   defaultChain_current None = ''eip155:1'' \<and>
   defaultChain_current (Some 1) = ''eip155:1'' \<and>
   defaultChain_current (Some 137) = ''eip155:137'' \<and>
   set [''eth_accounts'', ''eth_requestAccounts'', ''personal_sign'', ''eth_sign'',
        ''eth_signTypedData'', ''eth_signTypedData_v4'', ''eth_signTransaction'',
        ''eth_sendTransaction''] \<subseteq> set opensea_default_methods \<and>
   length opensea_default_methods = 17"
  by (simp add: namespaces_testnet_def namespaces_current_def buildNamespaces_empty
      defaultChain_current_def string_of_nat.simps defaultChain_testnet_def
      opensea_default_methods_def)

text \<open>
  C5 as stated fails in testnet mode: the single chain of the fallback is
  \<^verbatim>\<open>eip155:11155111\<close>, not chain id 1.
\<close>

theorem empty_proposal_testnet_chain:
  "chains (snd (hd (namespaces_testnet True ''0x2222222222222222222222222222222222222222''
      [] None))) = Some [''eip155:11155111''] \<and>
   accounts (snd (hd (namespaces_testnet True ''0x2222222222222222222222222222222222222222''
      [] None))) = [''eip155:11155111:0x2222222222222222222222222222222222222222'']"
  by (simp add: namespaces_testnet_def buildNamespaces_empty defaultChain_testnet_def)

text \<open>
  Claim C6, as the code has it.  Only the prefix \<^verbatim>\<open>eip155\<close> is negotiated: whatever the
  proposal holds, the approved set has the single key \<^verbatim>\<open>eip155\<close>.  When \<^verbatim>\<open>eip155\<close> is
  required and is not among the optional namespaces, its approved entry has exactly the
  required chains (the default chain when the proposal gives none), methods and events,
  and one account chain:address per chain, in order.
\<close>

theorem required_eip155_namespace:
  assumes "map_get ''eip155'' required = Some r"
    and "case optional of None \<Rightarrow> True
         | Some ons \<Rightarrow> map_get ''eip155'' ons = None"
  shows "buildNamespaces defaultChain address required optional =
     [(''eip155'',
       \<lparr>accounts = map (\<lambda>chain. chain @ '':'' @ address)
                     (or_else (req_chains r) [defaultChain]),
        methods = or_else (req_methods r) [],
        events = or_else (req_events r) [],
        chains = Some (or_else (req_chains r) [defaultChain])\<rparr>)] \<and>
    map_keys (buildNamespaces defaultChain address anyRequired anyOptional) = [''eip155'']"
proof -
  have "account_of address = (\<lambda>chain. chain @ '':'' @ address)"
    by (rule ext) (simp add: account_of_def)
  then show ?thesis
    using buildNamespaces_required_only [OF assms, of defaultChain address]
    by (simp add: buildNamespaces_keys)
qed

theorem required_eip155_namespace_witness:
  "map_get ''eip155''
     [(''eip155'', \<lparr>req_chains = Some [''eip155:1'', ''eip155:137''],
         req_methods = Some [''personal_sign'', ''eth_sendTransaction''],
         req_events = Some [''chainChanged'']\<rparr>)] =
   Some \<lparr>req_chains = Some [''eip155:1'', ''eip155:137''],
         req_methods = Some [''personal_sign'', ''eth_sendTransaction''],
         req_events = Some [''chainChanged'']\<rparr> \<and>
   buildNamespaces ''eip155:1'' ''0x2222222222222222222222222222222222222222''
     [(''eip155'', \<lparr>req_chains = Some [''eip155:1'', ''eip155:137''],
         req_methods = Some [''personal_sign'', ''eth_sendTransaction''],
         req_events = Some [''chainChanged'']\<rparr>)] None =
   [(''eip155'',
     \<lparr>accounts = [''eip155:1:0x2222222222222222222222222222222222222222'',
                  ''eip155:137:0x2222222222222222222222222222222222222222''],
      methods = [''personal_sign'', ''eth_sendTransaction''],
      events = [''chainChanged''],
      chains = Some [''eip155:1'', ''eip155:137'']\<rparr>)]"
  using required_eip155_namespace
    [of "[(''eip155'', \<lparr>req_chains = Some [''eip155:1'', ''eip155:137''],
         req_methods = Some [''personal_sign'', ''eth_sendTransaction''],
         req_events = Some [''chainChanged'']\<rparr>)]"
        "\<lparr>req_chains = Some [''eip155:1'', ''eip155:137''],
         req_methods = Some [''personal_sign'', ''eth_sendTransaction''],
         req_events = Some [''chainChanged'']\<rparr>"
        None "''eip155:1''" "''0x2222222222222222222222222222222222222222''"]
  by (simp add: map_get_def or_else_def)

text \<open>
  C6 as stated fails for a required prefix other than \<^verbatim>\<open>eip155\<close>: a proposal that
  requires \<^verbatim>\<open>solana\<close> gets no \<^verbatim>\<open>solana\<close> entry, and is approved with the five-method
  \<^verbatim>\<open>eip155\<close> fallback it never asked for.
\<close>

theorem required_solana_not_approved:
  "map_get ''solana''
     (buildNamespaces ''eip155:1'' ''0x2222222222222222222222222222222222222222''
        [(''solana'', \<lparr>req_chains = Some [''solana:mainnet''],
            req_methods = Some [''solana_signMessage''], req_events = Some []\<rparr>)] None) = None \<and>
   buildNamespaces ''eip155:1'' ''0x2222222222222222222222222222222222222222''
     [(''solana'', \<lparr>req_chains = Some [''solana:mainnet''],
         req_methods = Some [''solana_signMessage''], req_events = Some []\<rparr>)] None =
   [(''eip155'',
     \<lparr>accounts = [''eip155:1:0x2222222222222222222222222222222222222222''],
      methods = [''eth_sendTransaction'', ''personal_sign'', ''eth_sign'',
                 ''eth_signTypedData'', ''eth_signTypedData_v4''],
      events = [''chainChanged'', ''accountsChanged''],
      chains = Some [''eip155:1'']\<rparr>)]"
  by (simp add: buildNamespaces_def last_resort_step_def empty_step_def optional_step_def
      required_step_def map_get_def map_keys_def account_of_def default_events_def
      last_resort_methods_def)

text \<open>
  Claim C7, as the code has it.  When \<^verbatim>\<open>eip155\<close> is among the optional namespaces:
  \<^item> if \<^verbatim>\<open>eip155\<close> is not required, the entry is created from the optional chains,
    methods and events as they are, with one account per optional chain (the default
    chain and its account when the optional chain list is empty);
  \<^item> if \<^verbatim>\<open>eip155\<close> is required as well and some optional chain is not among the
    required ones, the accounts of the optional chains not yet covered are appended, and
    methods, events and chains become the union of the required and the optional ones,
    each without duplicates; every required and every optional chain then has its
    account, and the account list has no duplicates when neither chain list repeats a
    chain.
\<close>

theorem optional_eip155_namespace:
  assumes "optional = Some ons"
    and "map_get ''eip155'' ons = Some p"
  shows
   "(map_get ''eip155'' required = None \<longrightarrow>
       buildNamespaces defaultChain address required optional =
         [(''eip155'',
           \<lparr>accounts =
              (if or_else (req_chains p) [] = [] then [defaultChain @ '':'' @ address]
               else map (\<lambda>chain. chain @ '':'' @ address) (or_else (req_chains p) [])),
            methods = or_else (req_methods p) [],
            events = or_else (req_events p) [],
            chains = Some (if or_else (req_chains p) [] = [] then [defaultChain]
                           else or_else (req_chains p) [])\<rparr>)]) \<and>
    (map_get ''eip155'' required = Some r \<and>
     \<not> set (or_else (req_chains p) []) \<subseteq> set (or_else (req_chains r) [defaultChain]) \<longrightarrow>
       (\<exists>e. buildNamespaces defaultChain address required optional = [(''eip155'', e)] \<and>
            accounts e =
              map (\<lambda>chain. chain @ '':'' @ address) (or_else (req_chains r) [defaultChain]) @
              map (\<lambda>chain. chain @ '':'' @ address)
                (filter (\<lambda>c. c \<notin> set (or_else (req_chains r) [defaultChain]))
                   (or_else (req_chains p) [])) \<and>
            set (accounts e) =
              (\<lambda>chain. chain @ '':'' @ address) `
                (set (or_else (req_chains r) [defaultChain]) \<union> set (or_else (req_chains p) [])) \<and>
            (distinct (or_else (req_chains r) [defaultChain]) \<and>
             distinct (or_else (req_chains p) []) \<longrightarrow> distinct (accounts e)) \<and>
            set (methods e) =
              set (or_else (req_methods r) []) \<union> set (or_else (req_methods p) []) \<and>
            distinct (methods e) \<and>
            set (events e) =
              set (or_else (req_events r) []) \<union> set (or_else (req_events p) []) \<and>
            distinct (events e) \<and>
            (\<exists>cs. chains e = Some cs \<and> distinct cs \<and>
                  set cs = set (or_else (req_chains r) [defaultChain]) \<union>
                           set (or_else (req_chains p) []))))"
proof -
  let ?acc = "\<lambda>chain. chain @ '':'' @ address"
  let ?rcs = "or_else (req_chains r) [defaultChain]"
  let ?ocs = "or_else (req_chains p) []"
  have acc: "account_of address = ?acc"
    by (rule ext) (simp add: account_of_def)
  have inj: "inj ?acc"
    by (rule injI) simp
  have a: "map_get ''eip155'' required = None \<Longrightarrow> ?thesis"
    using buildNamespaces_optional_only [OF _ assms, of required defaultChain address]
    by (simp add: acc)
  have b: "?thesis"
    if r: "map_get ''eip155'' required = Some r" and n: "\<not> set ?ocs \<subseteq> set ?rcs"
  proof -
    let ?accs = "map ?acc ?rcs @ map ?acc (filter (\<lambda>c. c \<notin> set ?rcs) ?ocs)"
    let ?E = "\<lparr>accounts = ?accs,
               methods = set_spread (or_else (req_methods r) [] @ or_else (req_methods p) []),
               events = set_spread (or_else (req_events r) [] @ or_else (req_events p) []),
               chains = Some (set_spread (?rcs @ ?ocs))\<rparr>"
    have res: "buildNamespaces defaultChain address required optional = [(''eip155'', ?E)]"
      using buildNamespaces_merge [OF r assms n, of address] by (simp add: acc)
    have d: "distinct ?rcs \<and> distinct ?ocs \<longrightarrow> distinct ?accs"
      using inj by (auto simp: distinct_map inj_on_def)
    have s: "set ?accs = ?acc ` (set ?rcs \<union> set ?ocs)"
      by auto
    have m: "set (methods ?E) =
               set (or_else (req_methods r) []) \<union> set (or_else (req_methods p) [])"
      "distinct (methods ?E)"
      by (simp_all add: set_set_spread distinct_set_spread)
    have ev: "set (events ?E) =
               set (or_else (req_events r) []) \<union> set (or_else (req_events p) [])"
      "distinct (events ?E)"
      by (simp_all add: set_set_spread distinct_set_spread)
    have c: "\<exists>cs. chains ?E = Some cs \<and> distinct cs \<and> set cs = set ?rcs \<union> set ?ocs"
      by (simp add: set_set_spread distinct_set_spread)
    have "\<exists>e. buildNamespaces defaultChain address required optional = [(''eip155'', e)] \<and>
            accounts e = ?accs \<and> set (accounts e) = ?acc ` (set ?rcs \<union> set ?ocs) \<and>
            (distinct ?rcs \<and> distinct ?ocs \<longrightarrow> distinct (accounts e)) \<and>
            set (methods e) =
              set (or_else (req_methods r) []) \<union> set (or_else (req_methods p) []) \<and>
            distinct (methods e) \<and>
            set (events e) =
              set (or_else (req_events r) []) \<union> set (or_else (req_events p) []) \<and>
            distinct (events e) \<and>
            (\<exists>cs. chains e = Some cs \<and> distinct cs \<and> set cs = set ?rcs \<union> set ?ocs)"
      apply (rule exI [of _ ?E])
      apply (intro conjI)
      apply (rule res)
      apply simp
      using s apply simp
      using d apply simp
      apply (rule m(1))
      apply (rule m(2))
      apply (rule ev(1))
      apply (rule ev(2))
      apply (rule c)
      done
    then show ?thesis
      using r by simp
  qed
  show ?thesis
    using a b by (cases "map_get ''eip155'' required") auto
qed

theorem optional_eip155_namespace_witness:
  "map_get ''eip155''
     [(''eip155'', \<lparr>req_chains = Some [''eip155:1'', ''eip155:137''],
         req_methods = Some [''personal_sign'', ''eth_sendTransaction''],
         req_events = Some [''chainChanged'']\<rparr>)] =
   Some \<lparr>req_chains = Some [''eip155:1'', ''eip155:137''],
         req_methods = Some [''personal_sign'', ''eth_sendTransaction''],
         req_events = Some [''chainChanged'']\<rparr> \<and>
   map_get ''eip155''
     [(''eip155'', \<lparr>req_chains = Some [''eip155:1''], req_methods = Some [''personal_sign''],
         req_events = Some [''accountsChanged'']\<rparr>)] =
   Some \<lparr>req_chains = Some [''eip155:1''], req_methods = Some [''personal_sign''],
         req_events = Some [''accountsChanged'']\<rparr> \<and>
   \<not> set [''eip155:1'', ''eip155:137''] \<subseteq> set [''eip155:1''] \<and>
   buildNamespaces ''eip155:1'' ''0x2222222222222222222222222222222222222222''
     [(''eip155'', \<lparr>req_chains = Some [''eip155:1''], req_methods = Some [''personal_sign''],
         req_events = Some [''accountsChanged'']\<rparr>)]
     (Some [(''eip155'', \<lparr>req_chains = Some [''eip155:1'', ''eip155:137''],
         req_methods = Some [''personal_sign'', ''eth_sendTransaction''],
         req_events = Some [''chainChanged'']\<rparr>)]) =
   [(''eip155'',
     \<lparr>accounts = [''eip155:1:0x2222222222222222222222222222222222222222'',
                  ''eip155:137:0x2222222222222222222222222222222222222222''],
      methods = [''personal_sign'', ''eth_sendTransaction''],
      events = [''accountsChanged'', ''chainChanged''],
      chains = Some [''eip155:1'', ''eip155:137'']\<rparr>)]"
  using optional_eip155_namespace
    [of "Some [(''eip155'', \<lparr>req_chains = Some [''eip155:1'', ''eip155:137''],
         req_methods = Some [''personal_sign'', ''eth_sendTransaction''],
         req_events = Some [''chainChanged'']\<rparr>)]"
        "[(''eip155'', \<lparr>req_chains = Some [''eip155:1'', ''eip155:137''],
         req_methods = Some [''personal_sign'', ''eth_sendTransaction''],
         req_events = Some [''chainChanged'']\<rparr>)]"
        "\<lparr>req_chains = Some [''eip155:1'', ''eip155:137''],
         req_methods = Some [''personal_sign'', ''eth_sendTransaction''],
         req_events = Some [''chainChanged'']\<rparr>"
        "[(''eip155'', \<lparr>req_chains = Some [''eip155:1''], req_methods = Some [''personal_sign''],
         req_events = Some [''accountsChanged'']\<rparr>)]"
        "''eip155:1''" "''0x2222222222222222222222222222222222222222''"
        "\<lparr>req_chains = Some [''eip155:1''], req_methods = Some [''personal_sign''],
         req_events = Some [''accountsChanged'']\<rparr>"]
  by (simp add: buildNamespaces_def last_resort_step_def empty_step_def optional_step_def
      required_step_def map_get_def map_keys_def account_of_def or_else_def set_spread_def)

text \<open>
  C7 as stated fails for an optional prefix other than \<^verbatim>\<open>eip155\<close>: no entry is created
  for an optional \<^verbatim>\<open>solana\<close> namespace.
\<close>

theorem optional_solana_not_approved:
  "map_get ''solana''
     (buildNamespaces ''eip155:1'' ''0x2222222222222222222222222222222222222222'' []
        (Some [(''solana'', \<lparr>req_chains = Some [''solana:mainnet''],
            req_methods = Some [''solana_signMessage''], req_events = Some []\<rparr>)])) = None \<and>
   map_keys
     (buildNamespaces ''eip155:1'' ''0x2222222222222222222222222222222222222222'' []
        (Some [(''solana'', \<lparr>req_chains = Some [''solana:mainnet''],
            req_methods = Some [''solana_signMessage''], req_events = Some []\<rparr>)])) =
   [''eip155'']"
  by (simp add: buildNamespaces_def last_resort_step_def empty_step_def optional_step_def
      required_step_def map_get_def map_keys_def)

subsection \<open>The sessions map\<close>

lemma keys_map_set:
  "map fst (map_set k v m) = (if k \<in> fst ` set m then map fst m else map fst m @ [k])"
  by (induction m) (auto simp: rev_image_eqI)

lemma list_all_map_set: "list_all P m \<Longrightarrow> P (k, v) \<Longrightarrow> list_all P (map_set k v m)"
  by (induction m) auto

lemma inv_empty: "sessions_inv []"
  by (simp add: sessions_inv_def map_keys_def)

lemma inv_map_set: "sessions_inv m \<Longrightarrow> topic v = k \<Longrightarrow> sessions_inv (map_set k v m)"
  by (simp add: sessions_inv_def map_keys_def keys_map_set list_all_map_set)

lemma inv_store: "sessions_inv m \<Longrightarrow> sessions_inv (store_session t md m)"
  by (simp add: store_session_def inv_map_set)

lemma inv_cache: "sessions_inv m \<Longrightarrow> sessions_inv (cache_session x m)"
  by (simp add: cache_session_def inv_store)

lemma inv_delete: "sessions_inv m \<Longrightarrow> sessions_inv (map_delete t m)"
  by (simp add: sessions_inv_def map_keys_def map_delete_def distinct_map_filter list_all_iff)

lemma inv_fold_cache: "sessions_inv m \<Longrightarrow> sessions_inv (fold cache_session xs m)"
  by (induction xs arbitrary: m) (simp_all add: inv_cache)

lemma inv_fold_cache_if:
  "sessions_inv m \<Longrightarrow>
   sessions_inv (fold (\<lambda>x m. if \<not> map_has (session_topic x) m then cache_session x m else m) xs m)"
  by (induction xs arbitrary: m) (simp_all add: inv_cache)

lemma sessions_do_call [simp]: "sessions (do_call c s) = sessions s"
  by (simp add: do_call_def)

lemma signClient_do_call [simp]: "signClient (do_call c s) = signClient s"
  by (simp add: do_call_def)

lemma find_topic: "find (\<lambda>x. session_topic x = t) xs = Some y \<Longrightarrow> session_topic y = t"
  by (auto simp: find_Some_iff)

lemma inv_initialize: "sessions_inv (sessions s) \<Longrightarrow> sessions_inv (sessions (snd (initialize env s)))"
  by (auto simp: initialize_def Let_def inv_fold_cache split: option.splits sum.splits)

lemma inv_proposal_catch: "sessions (snd (proposal_catch ev s)) = sessions s"
  by (simp add: proposal_catch_def)

lemma inv_process:
  "sessions_inv (sessions s) \<Longrightarrow> sessions_inv (sessions (snd (processSessionProposal env ev s)))"
  by (auto simp: processSessionProposal_def Let_def inv_proposal_catch inv_store
      split: option.splits sum.splits)

lemma inv_approve:
  "sessions_inv (sessions s) \<Longrightarrow> sessions_inv (sessions (snd (approveProposal env i s)))"
proof -
  assume a: "sessions_inv (sessions s)"
  show ?thesis
  proof (cases "map_get i (pendingProposals s)")
    case None
    then show ?thesis using a by (simp add: approveProposal_def)
  next
    case (Some pr)
    obtain r s' where p: "processSessionProposal env pr s = (r, s')"
      by (cases "processSessionProposal env pr s")
    have "sessions_inv (sessions s')"
      using inv_process [OF a, of env pr] p by simp
    then show ?thesis
      using Some p by (cases r) (simp_all add: approveProposal_def)
  qed
qed

lemma sessions_reject: "sessions (snd (rejectProposal env i s)) = sessions s"
  by (simp add: rejectProposal_def Let_def split: option.splits)

lemma sessions_handle_proposal: "sessions (snd (handleSessionProposal env ev s)) = sessions s"
  by (simp add: handleSessionProposal_def Let_def sessions_reject)

lemma inv_connect:
  "sessions_inv (sessions s) \<Longrightarrow>
   sessions_inv (sessions (snd (connectWithUri env uri k t s)))"
proof -
  assume a: "sessions_inv (sessions s)"
  have b: "sessions_inv (sessions (snd (initialize env (s\<lparr>isTestnet := t\<rparr>))))"
    using a by (intro inv_initialize) simp
  show ?thesis
    using a b
    by (auto simp: connectWithUri_def Let_def split: option.splits sum.splits prod.splits if_splits)
qed

lemma inv_sync:
  "sessions_inv (sessions s) \<Longrightarrow> sessions_inv (sessions (sync_request_session env t s))"
  by (auto simp: sync_request_session_def inv_map_set dest: find_topic
      split: option.splits sum.splits)

lemma sessions_wallet_calls [simp]:
  "sessions (snd (wallet_signMessage env v s)) = sessions s"
  "sessions (snd (wallet_signTransaction env v s)) = sessions s"
  "sessions (snd (wallet_sendTransaction env v s)) = sessions s"
  "sessions (snd (wallet_signTypedData env d t m s)) = sessions s"
  by (simp_all add: wallet_signMessage_def wallet_signTransaction_def
      wallet_sendTransaction_def wallet_signTypedData_def)

lemma sessions_dispatch: "sessions (snd (dispatch env a ev s)) = sessions s"
  by (simp add: dispatch_def Let_def split: option.splits sum.splits)

lemma sessions_request_catch: "sessions (snd (request_catch env ev s)) = sessions s"
  by (simp add: request_catch_def Let_def split: option.splits)

lemma inv_request:
  "sessions_inv (sessions s) \<Longrightarrow>
   sessions_inv (sessions (snd (handleSessionRequest env ev s)))"
proof -
  assume a: "sessions_inv (sessions s)"
  show ?thesis
  proof (cases "signClient s \<and> wallet s \<noteq> None")
    case False
    then show ?thesis
      using a by (auto simp: handleSessionRequest_def sessions_request_catch)
  next
    case True
    then obtain address where w: "wallet s = Some address" by auto
    let ?s1 = "sync_request_session env (request_topic ev) s"
    obtain r s2 where d: "dispatch env address ev ?s1 = (r, s2)"
      by (cases "dispatch env address ev ?s1")
    have "sessions s2 = sessions ?s1"
      using sessions_dispatch [of env address ev ?s1] d by simp
    then have "sessions_inv (sessions s2)"
      using inv_sync [OF a] by simp
    then show ?thesis
      using True w d
      by (cases r) (simp_all add: handleSessionRequest_def Let_def sessions_request_catch)
  qed
qed

lemma inv_getSessions:
  "sessions_inv (sessions s) \<Longrightarrow> sessions_inv (sessions (snd (getSessions env s)))"
  by (auto simp: getSessions_def Let_def inv_fold_cache_if split: sum.splits)

lemma inv_disconnect:
  "sessions_inv (sessions s) \<Longrightarrow> sessions_inv (sessions (snd (disconnectSession env t s)))"
  by (auto simp: disconnectSession_def Let_def inv_delete split: option.splits)

lemma inv_disconnect_each:
  "sessions_inv (sessions s) \<Longrightarrow> sessions_inv (sessions (snd (disconnect_each env ts s)))"
proof (induction ts arbitrary: s)
  case Nil
  then show ?case by simp
next
  case (Cons t ts)
  obtain r s' where d: "disconnectSession env t s = (r, s')"
    by (cases "disconnectSession env t s")
  have i: "sessions_inv (sessions s')"
    using inv_disconnect [OF Cons.prems, of env t] d by simp
  show ?case
    using d i Cons.IH [OF i] by (cases r) simp_all
qed

lemma inv_real_step:
  "sessions_inv (sessions s) \<Longrightarrow> sessions_inv (sessions (real_step e s))"
proof -
  assume a: "sessions_inv (sessions s)"
  obtain env ev where e: "e = (env, ev)" by (cases e)
  show ?thesis
    unfolding e using a
    by (cases ev)
       (simp_all add: inv_initialize inv_connect sessions_handle_proposal inv_approve
          sessions_reject inv_request on_session_delete_def on_session_expire_def inv_delete
          inv_getSessions inv_disconnect disconnectAll_def inv_disconnect_each)
qed

lemma inv_fold_real:
  "sessions_inv (sessions s) \<Longrightarrow> sessions_inv (sessions (fold real_step evs s))"
  by (induction evs arbitrary: s) (simp_all add: inv_real_step)

lemma sessions_opensea_dispatch: "sessions (snd (opensea_dispatch env a ev s)) = sessions s"
  by (simp add: opensea_dispatch_def Let_def split: option.splits sum.splits)

lemma inv_onSessionProposal:
  "sessions_inv (sessions s) \<Longrightarrow> sessions_inv (sessions (snd (onSessionProposal env p s)))"
  by (auto simp: onSessionProposal_def Let_def inv_store split: option.splits sum.splits)

lemma sessions_onSessionRequest: "sessions (snd (onSessionRequest env ev s)) = sessions s"
proof (cases "signClient s \<and> wallet s \<noteq> None")
  case False
  then show ?thesis
    by (auto simp: onSessionRequest_def opensea_request_catch_def)
next
  case True
  then obtain address where w: "wallet s = Some address" by auto
  obtain r s1 where d: "opensea_dispatch env address ev s = (r, s1)"
    by (cases "opensea_dispatch env address ev s")
  have "sessions s1 = sessions s"
    using sessions_opensea_dispatch [of env address ev s] d by simp
  then show ?thesis
    using True w d
    by (cases r)
       (simp_all add: onSessionRequest_def Let_def opensea_request_catch_def
          split: option.splits)
qed

lemma inv_opensea_disconnect:
  "sessions_inv (sessions s) \<Longrightarrow>
   sessions_inv (sessions (snd (opensea_disconnectSession env t s)))"
  by (auto simp: opensea_disconnectSession_def Let_def inv_delete split: option.splits)

lemma sessions_opensea_initialize: "sessions (snd (opensea_initialize env s)) = sessions s"
  by (simp add: opensea_initialize_def split: option.splits)

lemma sessions_opensea_connect:
  "sessions (snd (opensea_connectWithUri env uri k s)) = sessions s"
proof -
  obtain r s1 where i: "opensea_initialize env s = (r, s1)"
    by (cases "opensea_initialize env s")
  have "sessions s1 = sessions s"
    using sessions_opensea_initialize [of env s] i by simp
  then show ?thesis
    using i by (cases r) (simp_all add: opensea_connectWithUri_def Let_def split: option.splits sum.splits)
qed

lemma inv_opensea_step:
  "sessions_inv (sessions s) \<Longrightarrow> sessions_inv (sessions (opensea_step e s))"
proof -
  assume a: "sessions_inv (sessions s)"
  obtain env ev where e: "e = (env, ev)" by (cases e)
  show ?thesis
    unfolding e using a
    by (cases ev)
       (simp_all add: sessions_opensea_initialize sessions_opensea_connect
          inv_onSessionProposal sessions_onSessionRequest on_session_delete_def inv_delete
          inv_opensea_disconnect)
qed

lemma inv_fold_opensea:
  "sessions_inv (sessions s) \<Longrightarrow> sessions_inv (sessions (fold opensea_step evs s))"
  by (induction evs arbitrary: s) (simp_all add: inv_opensea_step)

lemma inv_wc_connect: "sessions_inv m \<Longrightarrow> sessions_inv (snd (wc_connectWithUri env uri k m))"
  by (auto simp: wc_connectWithUri_def Let_def inv_map_set split: sum.splits)

lemma inv_wc_disconnect: "sessions_inv m \<Longrightarrow> sessions_inv (wc_disconnectSession t m)"
  by (simp add: wc_disconnectSession_def inv_delete)

lemma inv_fold_wc_disconnect: "sessions_inv m \<Longrightarrow> sessions_inv (fold wc_disconnectSession ts m)"
  by (induction ts arbitrary: m) (simp_all add: inv_wc_disconnect)

lemma inv_wc_step: "sessions_inv m \<Longrightarrow> sessions_inv (wc_step e m)"
proof -
  assume a: "sessions_inv m"
  obtain env ev where e: "e = (env, ev)" by (cases e)
  show ?thesis
    unfolding e using a
    by (cases ev) (simp_all add: inv_wc_connect inv_wc_disconnect wc_disconnectAll_def
        inv_fold_wc_disconnect)
qed

lemma inv_fold_wc: "sessions_inv m \<Longrightarrow> sessions_inv (fold wc_step evs m)"
  by (induction evs arbitrary: m) (simp_all add: inv_wc_step)

lemma inv_values:
  "sessions_inv m \<Longrightarrow> list_all (\<lambda>x. map_get (topic x) m = Some x) (map_values m)"
  by (auto simp: sessions_inv_def map_values_def map_keys_def map_get_def list_all_iff)

lemma inv_run_statement: "sessions_inv m \<Longrightarrow> sessions_inv (run_statement st m)"
  by (cases st) (simp_all add: inv_store inv_delete inv_empty)

lemma inv_fold_statements: "sessions_inv m \<Longrightarrow> sessions_inv (fold run_statement stmts m)"
  by (induction stmts arbitrary: m) (simp_all add: inv_run_statement)

text \<open>
  Claim C10.  In \<^verbatim>\<open>RealWalletConnectManager\<close>, \<^verbatim>\<open>OpenSeaWalletConnectManager\<close> and
  \<^verbatim>\<open>WalletConnectManager\<close>, after any sequence of entry points (connecting, proposals,
  approvals and rejections, requests, \<^verbatim>\<open>session_delete\<close>, \<^verbatim>\<open>session_expire\<close>, syncing in
  \<^verbatim>\<open>getSessions\<close>, disconnecting), whatever the transport and the wallet answer, every
  key of the \<^verbatim>\<open>sessions\<close> map is the topic of the session stored under it, and every
  session \<^verbatim>\<open>getSessions\<close> returns is the one stored under its own topic.  The same holds
  of the remaining managers after any sequence of their statements on the map.
\<close>

theorem sessions_keyed_by_topic:
  "sessions_inv (sessions (real_run real_events)) \<and>
   sessions_inv (sessions (opensea_run opensea_events)) \<and>
   sessions_inv (wc_run wc_events) \<and>
   sessions_inv (statements_run stmts) \<and>
   list_all
     (\<lambda>x. map_get (topic x) (sessions (snd (getSessions env (real_run real_events)))) = Some x)
     (fst (getSessions env (real_run real_events))) \<and>
   list_all (\<lambda>x. map_get (topic x) (sessions (opensea_run opensea_events)) = Some x)
     (opensea_getSessions (opensea_run opensea_events)) \<and>
   list_all (\<lambda>x. map_get (topic x) (wc_run wc_events) = Some x)
     (wc_getSessions (wc_run wc_events)) \<and>
   list_all (\<lambda>x. map_get (topic x) (statements_run stmts) = Some x)
     (map_values (statements_run stmts))"
proof -
  have r: "sessions_inv (sessions (real_run real_events))"
    unfolding real_run_def by (rule inv_fold_real) (simp add: new_manager_def inv_empty)
  have os: "sessions_inv (sessions (opensea_run opensea_events))"
    unfolding opensea_run_def by (rule inv_fold_opensea) (simp add: new_manager_def inv_empty)
  have w: "sessions_inv (wc_run wc_events)"
    unfolding wc_run_def by (rule inv_fold_wc) (rule inv_empty)
  have st: "sessions_inv (statements_run stmts)"
    unfolding statements_run_def by (rule inv_fold_statements) (rule inv_empty)
  have g: "fst (getSessions env (real_run real_events)) =
           map_values (sessions (snd (getSessions env (real_run real_events))))"
    by (simp add: getSessions_def Let_def)
  show ?thesis
    using r os w st inv_values [OF inv_getSessions [OF r, of env]] inv_values [OF os]
      inv_values [OF w] inv_values [OF st]
    by (simp add: g opensea_getSessions_def wc_getSessions_def)
qed

lemma approved_run_sessions:
  "sessions (real_run
     [(quiet_env, ConnectWithUri ''wc:abc@2'' ''0xkey'' False),
      (quiet_env, SetOnProposalCallback),
      (quiet_env, SessionProposal \<lparr>proposal_id = 1, proposer_metadata = opensea_peer,
          requiredNamespaces = [], optionalNamespaces = None\<rparr>),
      (quiet_env, ApproveProposal 1)]) =
    [(''topic-1'', \<lparr>topic = ''topic-1'', peerMetadata = opensea_peer\<rparr>)]"
  by (simp add: real_run_def connectWithUri_def initialize_def quiet_env_def new_manager_def
      handleSessionProposal_def approveProposal_def processSessionProposal_def Let_def
      do_call_def map_get_def store_session_def)

lemma connected_run_sessions:
  "wc_run [(quiet_env, WC_connectWithUri ''wc:abc@2?relay-protocol=irn'' ''0xkey'')] =
     [(''abc'', \<lparr>topic = ''abc'', peerMetadata = uniswap_metadata\<rparr>)]"
  by (simp add: wc_run_def wc_connectWithUri_def quiet_env_def startsWith_def Let_def)

theorem sessions_keyed_by_topic_witness:
  "sessions (real_run
     [(quiet_env, ConnectWithUri ''wc:abc@2'' ''0xkey'' False),
      (quiet_env, SetOnProposalCallback),
      (quiet_env, SessionProposal \<lparr>proposal_id = 1, proposer_metadata = opensea_peer,
          requiredNamespaces = [], optionalNamespaces = None\<rparr>),
      (quiet_env, ApproveProposal 1)]) =
     [(''topic-1'', \<lparr>topic = ''topic-1'', peerMetadata = opensea_peer\<rparr>)] \<and>
   sessions_inv [(''topic-1'', \<lparr>topic = ''topic-1'', peerMetadata = opensea_peer\<rparr>)] \<and>
   wc_run [(quiet_env, WC_connectWithUri ''wc:abc@2?relay-protocol=irn'' ''0xkey'')] =
     [(''abc'', \<lparr>topic = ''abc'', peerMetadata = uniswap_metadata\<rparr>)] \<and>
   sessions_inv [(''abc'', \<lparr>topic = ''abc'', peerMetadata = uniswap_metadata\<rparr>)]"
  using sessions_keyed_by_topic
    [of "[(quiet_env, ConnectWithUri ''wc:abc@2'' ''0xkey'' False),
          (quiet_env, SetOnProposalCallback),
          (quiet_env, SessionProposal \<lparr>proposal_id = 1, proposer_metadata = opensea_peer,
              requiredNamespaces = [], optionalNamespaces = None\<rparr>),
          (quiet_env, ApproveProposal 1)]"
        "[]"
        "[(quiet_env, WC_connectWithUri ''wc:abc@2?relay-protocol=irn'' ''0xkey'')]"
        "[]" quiet_env]
  by (simp only: approved_run_sessions connected_run_sessions)

subsection \<open>Approving a proposal\<close>

text \<open>
  Claim C3, as the code has it.  \<^verbatim>\<open>approveProposal\<close> on an id that is not in
  \<^verbatim>\<open>pendingProposals\<close> returns normally, without an error: the miss is only logged.  No
  session is created, nothing else of the manager changes, and no call is made on the
  transport.
\<close>

theorem approve_unknown_proposal_returns_silently:
  "map_get proposalId (pendingProposals s) = None \<Longrightarrow>
   approveProposal env proposalId s = (Inr (), s)"
  by (simp add: approveProposal_def)

theorem approve_unknown_proposal_returns_silently_witness:
  "map_get 7 (pendingProposals connected_manager) = None \<and>
   approveProposal quiet_env 7 connected_manager = (Inr (), connected_manager)"
  using approve_unknown_proposal_returns_silently [of 7 connected_manager quiet_env]
  by (simp add: connected_manager_def new_manager_def map_get_def)

text \<open>
  C3 as stated fails: approving the unknown id 7 does not end in an error.
\<close>

theorem approve_unknown_proposal_no_error:
  "fst (approveProposal quiet_env 7 connected_manager) = Inr ()"
  by (simp add: approveProposal_def connected_manager_def new_manager_def map_get_def)

subsection \<open>Request dispatch\<close>

lemma calls_do_call [simp]: "calls (do_call c s) = calls s @ [c]"
  by (simp add: do_call_def)

lemma wallet_do_call [simp]: "wallet (do_call c s) = wallet s"
  by (simp add: do_call_def)

lemma calls_sync [simp]: "calls (sync_request_session env t s) = calls s"
  by (simp add: sync_request_session_def split: sum.splits option.splits)

lemma signClient_sync [simp]: "signClient (sync_request_session env t s) = signClient s"
  by (simp add: sync_request_session_def split: sum.splits option.splits)

lemma dispatch_default:
  "request_method event \<notin> set handled_methods \<Longrightarrow>
   dispatch env address event s = (Inr JNull, s)"
  by (simp add: dispatch_def handled_methods_def Let_def)

text \<open>
  The address check of \<^verbatim>\<open>RealWalletConnectManager\<close>: a \<^verbatim>\<open>personal_sign\<close> or \<^verbatim>\<open>eth_sign\<close>
  request for another address is answered with an error, and the wallet is never asked
  to sign.
\<close>

lemma real_sign_rejects_other_address:
  assumes "signClient s" and "wallet s = Some address"
    and "requested \<noteq> []" and "lower_string requested \<noteq> lower_string address"
    and "request_method event = ''personal_sign'' \<and>
           request_params event = JArray [message, JString requested] \<or>
         request_method event = ''eth_sign'' \<and>
           request_params event = JArray [JString requested, message]"
  shows "calls (snd (handleSessionRequest env event s)) =
           calls s @ [Respond (request_topic event)
                        (ErrorResponse (request_id event) (- 32601) ''Method not found'')]"
proof -
  have m: "address_mismatch address (JString requested) =
             Some (Error (''Address mismatch: requested '' @ requested @ '', wallet has '' @
                          address))"
    using assms(3,4) by (simp add: address_mismatch_def the_string_def)
  have d: "fst (dispatch env address event s') =
             Inl (Error (''Address mismatch: requested '' @ requested @ '', wallet has '' @
                         address)) \<and> snd (dispatch env address event s') = s'" for s'
    using assms(5) m by (auto simp: dispatch_def Let_def)
  obtain r s2 where e: "dispatch env address event
      (sync_request_session env (request_topic event) s) = (r, s2)"
    by (cases "dispatch env address event (sync_request_session env (request_topic event) s)")
  have "r = Inl (Error (''Address mismatch: requested '' @ requested @ '', wallet has '' @
                         address))"
    and "s2 = sync_request_session env (request_topic event) s"
    using d [of "sync_request_session env (request_topic event) s"] e by simp_all
  then show ?thesis
    using assms(1,2) e
    by (simp add: handleSessionRequest_def request_catch_def Let_def split: option.splits)
qed

text \<open>
  Claim C4 fails in \<^verbatim>\<open>OpenSeaWalletConnectManager\<close>, whose \<^verbatim>\<open>personal_sign\<close> reads the
  address parameter and never compares it: a request to sign for
  \<^verbatim>\<open>0x1111111111111111111111111111111111111111\<close>, received by the wallet
  \<^verbatim>\<open>0x2222222222222222222222222222222222222222\<close>, is signed and answered with the
  signature.
\<close>

theorem opensea_personal_sign_signs_for_other_address:
  "onSessionRequest quiet_env
     \<lparr>request_topic = ''topic-1'', request_id = 7, request_method = ''personal_sign'',
      request_params =
        JArray [JString ''0x68656c6c6f'',
                JString ''0x1111111111111111111111111111111111111111'']\<rparr>
     connected_manager =
   (Inr (),
    connected_manager
      \<lparr>calls := [SignMessage (JString ''0x68656c6c6f''),
                 Respond ''topic-1'' (Result 7 (JString ''signature''))]\<rparr>)"
  by (simp add: onSessionRequest_def opensea_dispatch_def connected_manager_def
      new_manager_def quiet_env_def looks_like_address_def has_hex_prefix_def startsWith_def
      messageToSign_def the_string_def wallet_signMessage_def do_call_def Let_def)

text \<open>
  Claim C8, as the code has it.  A request whose method is none of the case labels of
  \<^verbatim>\<open>handleSessionRequest\<close> is not dropped and is not answered with an error: the manager
  makes exactly one call on the transport, a \<^verbatim>\<open>respond\<close> that carries the result
  \<^verbatim>\<open>null\<close>.
\<close>

theorem unsupported_method_answered_with_null:
  assumes "request_method event \<notin> set handled_methods"
    and "signClient s" and "wallet s = Some address"
  shows "fst (handleSessionRequest env event s) = Inr () \<and>
         calls (snd (handleSessionRequest env event s)) =
           calls s @ [Respond (request_topic event) (Result (request_id event) JNull)]"
  using assms
  by (simp add: handleSessionRequest_def dispatch_default Let_def)

theorem unsupported_method_answered_with_null_witness:
  "''eth_call'' \<notin> set handled_methods \<and>
   signClient connected_manager \<and>
   wallet connected_manager = Some ''0x2222222222222222222222222222222222222222'' \<and>
   fst (handleSessionRequest quiet_env
          \<lparr>request_topic = ''topic-1'', request_id = 7, request_method = ''eth_call'',
           request_params = JArray []\<rparr> connected_manager) = Inr () \<and>
   calls (snd (handleSessionRequest quiet_env
          \<lparr>request_topic = ''topic-1'', request_id = 7, request_method = ''eth_call'',
           request_params = JArray []\<rparr> connected_manager)) =
     [Respond ''topic-1'' (Result 7 JNull)]"
  using unsupported_method_answered_with_null
    [of "\<lparr>request_topic = ''topic-1'', request_id = 7, request_method = ''eth_call'',
           request_params = JArray []\<rparr>" connected_manager
        "''0x2222222222222222222222222222222222222222''" quiet_env]
  by (simp add: handled_methods_def connected_manager_def new_manager_def)

text \<open>
  C8 as stated fails: the unsupported method \<^verbatim>\<open>eth_call\<close> is answered with a result, not
  with an error.
\<close>

theorem unsupported_method_gets_result:
  "calls (snd (handleSessionRequest quiet_env
          \<lparr>request_topic = ''topic-1'', request_id = 7, request_method = ''eth_call'',
           request_params = JArray []\<rparr> connected_manager)) =
     [Respond ''topic-1'' (Result 7 JNull)]"
  by (simp add: handleSessionRequest_def dispatch_def sync_request_session_def map_has_def
      connected_manager_def new_manager_def quiet_env_def do_call_def Let_def)

text \<open>
  Claim C9 fails in \<^verbatim>\<open>RealWalletConnectManager\<close>, where \<^verbatim>\<open>eth_sendTransaction\<close> shares
  the case of \<^verbatim>\<open>eth_signTransaction\<close>: the transaction is signed and the signed payload
  is the answer; nothing is sent to the network and no transaction hash is returned.
\<close>

theorem real_sendTransaction_only_signs:
  "handleSessionRequest quiet_env
     \<lparr>request_topic = ''topic-1'', request_id = 7,
      request_method = ''eth_sendTransaction'',
      request_params = JArray [JObject [(''to'', JString ''0x1111111111111111111111111111111111111111''),
                                        (''value'', JString ''0x1'')]]\<rparr>
     connected_manager =
   (Inr (),
    connected_manager
      \<lparr>calls :=
         [SignTransaction
            (JObject [(''to'', JString ''0x1111111111111111111111111111111111111111''),
                      (''value'', JString ''0x1'')]),
          Respond ''topic-1'' (Result 7 (JString ''signed-transaction''))]\<rparr>)"
  by (simp add: handleSessionRequest_def dispatch_def sync_request_session_def map_has_def
      connected_manager_def new_manager_def quiet_env_def wallet_signTransaction_def
      do_call_def Let_def)

subsection \<open>Password encryption of the private key\<close>

lemma stand_in_lib_round_trips: "lib_round_trips stand_in_lib"
  by (simp add: lib_round_trips_def stand_in_lib_def blob_object_def startsWith_def)

text \<open>
  \<^verbatim>\<open>encryptPrivateKey\<close> returns a blob exactly when its three library calls return: the
  key derivation, the hex parsing of the derived key and the AES encryption.
\<close>

lemma encrypt_returns_iff_library_calls_do:
  "(\<exists>blob. encryptPrivateKey lib salt iv secret password = Inr blob) \<longleftrightarrow>
     (\<exists>keyBytes key encrypted.
        pbkdf2 lib password (JString (WordArray_toString lib salt)) 100000 32 = Inr keyBytes \<and>
        Hex_parse lib (JString (hex_of_bytes keyBytes)) = Inr key \<and>
        AES_encrypt lib secret key iv = Inr encrypted)"
  by (auto simp: encryptPrivateKey_def split: sum.splits)

text \<open>
  Claim C1.  Provided the libraries keep their contract (hex parsing inverts
  \<^verbatim>\<open>toString\<close>, AES decryption under the key and IV of the encryption returns the
  message, \<^verbatim>\<open>JSON.parse\<close> inverts \<^verbatim>\<open>JSON.stringify\<close>), then for every secret, password,
  salt and IV for which the three library calls of the encryption return (the key
  derivation, the hex parsing of the derived key, the AES encryption):
  \<^verbatim>\<open>encryptPrivateKey\<close> returns a blob, and \<^verbatim>\<open>decryptPrivateKey\<close> of that blob with the
  same password returns exactly the secret.
\<close>

theorem decrypt_encrypt_round_trip:
  assumes "lib_round_trips lib"
    and "pbkdf2 lib password (JString (WordArray_toString lib salt)) 100000 32 = Inr keyBytes"
    and "Hex_parse lib (JString (hex_of_bytes keyBytes)) = Inr key"
    and "AES_encrypt lib secret key iv = Inr encrypted"
  shows "\<exists>blob. encryptPrivateKey lib salt iv secret password = Inr blob \<and>
                decryptPrivateKey lib blob password = Inr secret"
proof -
  let ?salt = "WordArray_toString lib salt"
  let ?iv = "WordArray_toString lib iv"
  let ?blob = "JSON_stringify lib (blob_object ?salt ?iv encrypted)"
  have enc: "encryptPrivateKey lib salt iv secret password = Inr ?blob"
    using assms(2-4) by (simp add: encryptPrivateKey_def)
  have p: "JSON_parse_text lib ?blob = Inr (blob_object ?salt ?iv encrypted)"
    using assms(1) by (simp add: lib_round_trips_def)
  have i: "Hex_parse lib (JString ?iv) = Inr iv"
    using assms(1) by (simp add: lib_round_trips_def)
  have d: "AES_decrypt lib (JString encrypted) key iv = Inr secret"
    using assms(1,4) by (simp add: lib_round_trips_def)
  have dec: "decryptPrivateKey lib ?blob password = Inr secret"
    using assms(2,3)
    by (simp add: decryptPrivateKey_def p [unfolded blob_object_def] blob_object_def i d)
  show ?thesis
    using enc dec by blast
qed

lemma stand_in_encrypt:
  "encryptPrivateKey stand_in_lib ''5a17'' ''1b'' ''0x7f63'' ''pw'' =
     Inr (blob_object ''5a17'' ''1b'' ''70771b0x7f63'')"
  by (simp add: encryptPrivateKey_def stand_in_lib_def hex_of_bytes_def hex_byte_def
      hex_digit_def)

lemma stand_in_calls:
  "pbkdf2 stand_in_lib ''pw'' (JString (WordArray_toString stand_in_lib ''5a17'')) 100000 32 =
     Inr (map (\<lambda>ch. of_nat (of_char ch)) ''pw'')"
  "Hex_parse stand_in_lib (JString (hex_of_bytes (map (\<lambda>ch. of_nat (of_char ch)) ''pw''))) =
     Inr ''7077''"
  "AES_encrypt stand_in_lib ''0x7f63'' ''7077'' ''1b'' = Inr ''70771b0x7f63''"
  by (simp_all add: stand_in_lib_def hex_of_bytes_def hex_byte_def hex_digit_def)

theorem decrypt_encrypt_round_trip_witness:
  "lib_round_trips stand_in_lib \<and>
   pbkdf2 stand_in_lib ''pw'' (JString (WordArray_toString stand_in_lib ''5a17'')) 100000 32 =
     Inr (map (\<lambda>ch. of_nat (of_char ch)) ''pw'') \<and>
   Hex_parse stand_in_lib (JString (hex_of_bytes (map (\<lambda>ch. of_nat (of_char ch)) ''pw''))) =
     Inr ''7077'' \<and>
   AES_encrypt stand_in_lib ''0x7f63'' ''7077'' ''1b'' = Inr ''70771b0x7f63'' \<and>
   encryptPrivateKey stand_in_lib ''5a17'' ''1b'' ''0x7f63'' ''pw'' =
     Inr (blob_object ''5a17'' ''1b'' ''70771b0x7f63'') \<and>
   decryptPrivateKey stand_in_lib (blob_object ''5a17'' ''1b'' ''70771b0x7f63'') ''pw'' =
     Inr ''0x7f63''"
  using decrypt_encrypt_round_trip
    [OF stand_in_lib_round_trips stand_in_calls(1) stand_in_calls(2) stand_in_calls(3)]
    stand_in_lib_round_trips stand_in_calls stand_in_encrypt
  by auto

text \<open>
  Claim C2 is not what \<^verbatim>\<open>decryptPrivateKey\<close> does.  The function checks nothing of its
  own: it succeeds exactly when every library call goes through, and then returns the
  string the AES decryption yields under the key derived from the given password,
  whatever that string is.  A wrong password is rejected only if a library throws.
\<close>

theorem decrypt_succeeds_iff_library_calls_do:
  "decryptPrivateKey lib blob password = Inr decrypted \<longleftrightarrow>
     (\<exists>data salt keyBytes key iv_hex iv encrypted.
        JSON_parse_text lib blob = Inr data \<and>
        js_prop data ''salt'' = Inr salt \<and>
        pbkdf2 lib password salt 100000 32 = Inr keyBytes \<and>
        Hex_parse lib (JString (hex_of_bytes keyBytes)) = Inr key \<and>
        js_prop data ''iv'' = Inr iv_hex \<and>
        Hex_parse lib iv_hex = Inr iv \<and>
        js_prop data ''encrypted'' = Inr encrypted \<and>
        AES_decrypt lib encrypted key iv = Inr decrypted)"
  by (auto simp: decryptPrivateKey_def split: sum.splits)

lemma stand_in_wrong_password:
  "decryptPrivateKey stand_in_lib (blob_object ''5a17'' ''1b'' ''70771b0x7f63'') ''wrong'' =
     Inr []"
  by (simp add: decryptPrivateKey_def stand_in_lib_def blob_object_def hex_of_bytes_def
      hex_byte_def hex_digit_def startsWith_def)

subsection \<open>Further facts about the handlers\<close>

text \<open>
  When every optional \<^verbatim>\<open>eip155\<close> chain is already required, \<^verbatim>\<open>additionalAccounts\<close> is empty
  and the merge is skipped as a whole: the optional methods and events are not added.
\<close>

lemma optional_methods_dropped_when_chains_covered:
  "buildNamespaces ''eip155:1'' ''0x2222222222222222222222222222222222222222''
     [(''eip155'', \<lparr>req_chains = Some [''eip155:1''], req_methods = Some [''personal_sign''],
         req_events = Some [''accountsChanged'']\<rparr>)]
     (Some [(''eip155'', \<lparr>req_chains = Some [''eip155:1''],
         req_methods = Some [''eth_sendTransaction''],
         req_events = Some [''chainChanged'']\<rparr>)]) =
   [(''eip155'',
     \<lparr>accounts = [''eip155:1:0x2222222222222222222222222222222222222222''],
      methods = [''personal_sign''],
      events = [''accountsChanged''],
      chains = Some [''eip155:1'']\<rparr>)]"
  by (simp add: buildNamespaces_def last_resort_step_def empty_step_def optional_step_def
      required_step_def map_get_def map_keys_def account_of_def or_else_def)

text \<open>
  In \<^verbatim>\<open>OpenSeaWalletConnectManager\<close>, \<^verbatim>\<open>eth_sendTransaction\<close> hands the transaction to
  \<^verbatim>\<open>wallet.sendTransaction\<close> and answers with the hash.
\<close>

lemma opensea_sendTransaction_submits:
  "onSessionRequest quiet_env
     \<lparr>request_topic = ''topic-1'', request_id = 7,
      request_method = ''eth_sendTransaction'',
      request_params = JArray [JObject [(''to'', JString ''0x1111111111111111111111111111111111111111''),
                                        (''value'', JString ''0x1'')]]\<rparr>
     connected_manager =
   (Inr (),
    connected_manager
      \<lparr>calls :=
         [SendTransaction
            (JObject [(''to'', JString ''0x1111111111111111111111111111111111111111''),
                      (''value'', JString ''0x1'')]),
          Respond ''topic-1'' (Result 7 (JString ''transaction-hash''))]\<rparr>)"
  by (simp add: onSessionRequest_def opensea_dispatch_def connected_manager_def
      new_manager_def quiet_env_def wallet_sendTransaction_def do_call_def Let_def)

text \<open>
  In \<^verbatim>\<open>OpenSeaWalletConnectManager\<close>, a request that fails in the \<^verbatim>\<open>switch\<close> (an
  unsupported method, a malformed parameter, a wallet error) ends in the ReferenceError of
  the \<^verbatim>\<open>catch\<close> block, and the peer is sent nothing.
\<close>

lemma opensea_failed_request_is_not_answered:
  assumes "signClient s" and "wallet s = Some address"
    and "opensea_dispatch env address event s = (Inl e, s1)"
  shows "onSessionRequest env event s = (Inl ReferenceError, s1)"
  using assms by (simp add: onSessionRequest_def opensea_request_catch_def)

lemma opensea_unsupported_method_is_not_answered:
  "onSessionRequest quiet_env
     \<lparr>request_topic = ''topic-1'', request_id = 7, request_method = ''eth_signTransaction'',
      request_params = JArray [JObject []]\<rparr> connected_manager =
   (Inl ReferenceError, connected_manager)"
  by (simp add: onSessionRequest_def opensea_dispatch_def opensea_request_catch_def
      connected_manager_def new_manager_def quiet_env_def Let_def)

text \<open>
  The same request as the one \<^verbatim>\<open>OpenSeaWalletConnectManager\<close> signs, received by
  \<^verbatim>\<open>RealWalletConnectManager\<close>: the wallet is not asked to sign and the peer gets the
  error response.
\<close>

lemma real_personal_sign_refuses_other_address:
  "handleSessionRequest quiet_env
     \<lparr>request_topic = ''topic-1'', request_id = 7, request_method = ''personal_sign'',
      request_params =
        JArray [JString ''0x68656c6c6f'',
                JString ''0x1111111111111111111111111111111111111111'']\<rparr>
     connected_manager =
   (Inr (),
    connected_manager
      \<lparr>calls := [Respond ''topic-1'' (ErrorResponse 7 (- 32601) ''Method not found'')]\<rparr>)"
  by (simp add: handleSessionRequest_def dispatch_def sync_request_session_def map_has_def
      request_catch_def address_mismatch_def lower_string_def lower_char_def
      connected_manager_def new_manager_def quiet_env_def do_call_def Let_def)

end
